theory Spec2Isabelle
  imports Complex_Main "HOL-Library.Word"
begin

section \<open>JavaScript strings and JSON values\<close>

text \<open>
  A JavaScript string is a sequence of UTF-16 code units; \<open>split('')\<close>, \<open>reverse\<close>,
  \<open>slice\<close>, \<open>startsWith\<close> and the regular expressions of the server all work on code
  units. The provider's body arrives as bytes.
\<close>

type_synonym jschar = "16 word"
type_synonym jsstring = "jschar list"
type_synonym byte = "8 word"

definition lit :: "string \<Rightarrow> jsstring" where
  "lit s = map (\<lambda>c. of_nat (of_char c)) s"

definition ascii_bytes :: "string \<Rightarrow> byte list" where
  "ascii_bytes s = map (\<lambda>c. of_nat (of_char c)) s"

definition LF :: jschar where "LF = 10"
definition CR :: jschar where "CR = 13"

text \<open>
  The values \<open>JSON.parse\<close> and \<open>resp.json()\<close> produce. \<open>undefined\<close> is \<open>None\<close> of
  \<open>json option\<close>. An object is its list of own properties (the keys are distinct, as
  in every JavaScript object). Numbers are reals: no claim depends on rounding.
\<close>

datatype json =
    JNull
  | JBool bool
  | JNum real
  | JStr jsstring
  | JArr "json list"
  | JObj "(jsstring \<times> json) list"

text \<open>\<open>x == null\<close>, the test behind \<open>?.\<close> and \<open>??\<close>.\<close>

fun nullish :: "json option \<Rightarrow> bool" where
  "nullish None = True"
| "nullish (Some JNull) = True"
| "nullish (Some _) = False"

text \<open>JavaScript truthiness, the test of \<open>if (text)\<close>.\<close>

fun truthy :: "json option \<Rightarrow> bool" where
  "truthy None = False"
| "truthy (Some JNull) = False"
| "truthy (Some (JBool b)) = b"
| "truthy (Some (JNum x)) = (x \<noteq> 0)"
| "truthy (Some (JStr s)) = (s \<noteq> [])"
| "truthy (Some (JArr xs)) = True"
| "truthy (Some (JObj kvs)) = True"

text \<open>
  \<open>x.name\<close> for a value that is neither \<open>null\<close> nor \<open>undefined\<close> and a name that is
  neither an index, \<open>length\<close> nor a member of a prototype (the server reads
  \<open>choices\<close>, \<open>delta\<close>, \<open>message\<close>, \<open>content\<close> and \<open>candidates\<close>): a primitive or an array
  has no such property.
\<close>

fun member :: "string \<Rightarrow> json \<Rightarrow> json option" where
  "member k (JObj kvs) = map_of kvs (lit k)"
| "member k _ = None"

text \<open>\<open>x?.name\<close>\<close>

definition opt_member :: "string \<Rightarrow> json option \<Rightarrow> json option" where
  "opt_member k x = (case x of None \<Rightarrow> None | Some v \<Rightarrow> if v = JNull then None else member k v)"

text \<open>
  \<open>x[0]\<close>: the first element of an array, the first code unit of a string, the
  property \<open>"0"\<close> of an object.
\<close>

fun index0 :: "json \<Rightarrow> json option" where
  "index0 (JArr xs) = (case xs of [] \<Rightarrow> None | x # _ \<Rightarrow> Some x)"
| "index0 (JStr s) = (case s of [] \<Rightarrow> None | c # _ \<Rightarrow> Some (JStr [c]))"
| "index0 (JObj kvs) = map_of kvs (lit ''0'')"
| "index0 _ = None"

text \<open>\<open>x?.[0]\<close>\<close>

definition opt_index0 :: "json option \<Rightarrow> json option" where
  "opt_index0 x = (case x of None \<Rightarrow> None | Some v \<Rightarrow> if v = JNull then None else index0 v)"

text \<open>\<open>a ?? b\<close>\<close>

definition coalesce :: "json option \<Rightarrow> json option \<Rightarrow> json option" where
  "coalesce a b = (if nullish a then b else a)"

section \<open>The platform\<close>

text \<open>Errors: \<open>new Error(message)\<close> of the server, or what the platform throws.\<close>

datatype js_error = Error jsstring | Thrown jsstring

text \<open>\<open>String(err)\<close>\<close>

fun String_err :: "js_error \<Rightarrow> jsstring" where
  "String_err (Error msg) = lit ''Error: '' @ msg"
| "String_err (Thrown s) = s"

text \<open>
  What the server takes from Node: \<open>JSON.parse\<close> (\<open>None\<close> when it throws), the
  \<open>TextDecoder\<close> (a state and what one more byte makes it emit, which is how
  \<open>decode(value, {stream: true})\<close> treats the bytes of a chunk),
  \<open>encodeURIComponent\<close>, the conversion to a string of a value that is no string
  (the error when it throws), and the texts of three \<open>TypeError\<close>s: the one
  \<open>res.write\<close> throws for a chunk that is no string, the one of reading a property
  of \<open>null\<close>, and the one of calling what is no function.
\<close>

record 'd platform =
  json_parse :: "jsstring \<Rightarrow> json option"
  dec_init :: 'd
  dec_byte :: "'d \<Rightarrow> byte \<Rightarrow> 'd \<times> jsstring"
  encodeURIComponent :: "jsstring \<Rightarrow> jsstring"
  to_string :: "json \<Rightarrow> js_error + jsstring"
  chunk_type_error :: "json \<Rightarrow> jsstring"
  null_read_error :: "string \<Rightarrow> jsstring"
  not_function_error :: "string \<Rightarrow> jsstring"

text \<open>
  A value inside a template string, \<open>`${value}`\<close>: a string is itself, anything
  else is converted.
\<close>

definition template_string :: "'d platform \<Rightarrow> json \<Rightarrow> js_error + jsstring" where
  "template_string P v = (case v of JStr s \<Rightarrow> Inr s | _ \<Rightarrow> to_string P v)"

text \<open>\<open>decoder.decode(value, { stream: true })\<close>\<close>

fun decode_stream :: "'d platform \<Rightarrow> 'd \<Rightarrow> byte list \<Rightarrow> 'd \<times> jsstring" where
  "decode_stream P d [] = (d, [])"
| "decode_stream P d (b # bs) =
     (case dec_byte P d b of (d1, out1) \<Rightarrow>
        (case decode_stream P d1 bs of (d2, out2) \<Rightarrow> (d2, out1 @ out2)))"

section \<open>The response to the client\<close>

text \<open>
  What reaches the client, in order: the text of each \<open>res.write\<close>, the body of a
  \<open>res.json\<close>, the end of the response. The headers are those the server sets
  itself.
\<close>

datatype wire_event = Fragment jsstring | JsonBody json | Close

record response =
  status :: nat
  headers :: "(string \<times> string) list"
  headersSent :: bool
  wire :: "wire_event list"
  finished :: bool

definition new_response :: response where
  "new_response = \<lparr>status = 200, headers = [], headersSent = False, wire = [], finished = False\<rparr>"

definition res_status :: "nat \<Rightarrow> response \<Rightarrow> response" where
  "res_status code res = res\<lparr>status := code\<rparr>"

definition res_setHeader :: "string \<Rightarrow> string \<Rightarrow> response \<Rightarrow> response" where
  "res_setHeader k v res = res\<lparr>headers := filter (\<lambda>h. fst h \<noteq> k) (headers res) @ [(k, v)]\<rparr>"

text \<open>\<open>res.write(text)\<close> for a string; nothing is written to a finished response.\<close>

definition res_write :: "jsstring \<Rightarrow> response \<Rightarrow> response" where
  "res_write s res =
     (if finished res then res
      else res\<lparr>headersSent := True, wire := wire res @ [Fragment s]\<rparr>)"

text \<open>\<open>res.end()\<close>; on a finished response it does nothing.\<close>

definition res_end :: "response \<Rightarrow> response" where
  "res_end res =
     (if finished res then res
      else res\<lparr>headersSent := True, wire := wire res @ [Close], finished := True\<rparr>)"

text \<open>\<open>res.end(text)\<close>\<close>

definition res_end_with :: "jsstring \<Rightarrow> response \<Rightarrow> response" where
  "res_end_with s res = res_end (res_write s res)"

text \<open>
  \<open>res.json(value)\<close> of Express: the content type is set unless the response has
  one, then the body is sent and the response ended.
\<close>

definition res_json :: "json \<Rightarrow> response \<Rightarrow> response" where
  "res_json v res =
     (if finished res then res
      else res_end ((if map_of (headers res) ''Content-Type'' = None
                     then res_setHeader ''Content-Type'' ''application/json; charset=utf-8'' res
                     else res)
                     \<lparr>headersSent := True, wire := wire res @ [JsonBody v]\<rparr>))"

section \<open>The stream relay of streamOpenAICompletion\<close>

text \<open>\<open>buf.split(/\n\n/)\<close>: the pieces between the leftmost, non-overlapping \<open>\n\n\<close>.\<close>

fun cons_first :: "jschar \<Rightarrow> jsstring list \<Rightarrow> jsstring list" where
  "cons_first c [] = [[c]]"
| "cons_first c (p # ps) = (c # p) # ps"

fun split_frames :: "jsstring \<Rightarrow> jsstring list" where
  "split_frames [] = [[]]"
| "split_frames [c] = [[c]]"
| "split_frames (c # d # cs) =
     (if c = LF \<and> d = LF then [] # split_frames cs
      else cons_first c (split_frames (d # cs)))"

text \<open>\<open>part.split(/\r?\n/)\<close>\<close>

fun split_lines :: "jsstring \<Rightarrow> jsstring list" where
  "split_lines [] = [[]]"
| "split_lines [c] = (if c = LF then [[], []] else [[c]])"
| "split_lines (c # d # cs) =
     (if c = LF then [] # split_lines (d # cs)
      else if c = CR \<and> d = LF then [] # split_lines cs
      else cons_first c (split_lines (d # cs)))"

text \<open>\<open>line.startsWith(prefix)\<close>\<close>

definition startsWith :: "jsstring \<Rightarrow> jsstring \<Rightarrow> bool" where
  "startsWith prefix line = (take (length prefix) line = prefix)"

text \<open>The class \<open>\s\<close> of a JavaScript regular expression.\<close>

definition is_space :: "jschar \<Rightarrow> bool" where
  "is_space c =
     (c \<in> set [0x9, 0xA, 0xB, 0xC, 0xD, 0x20, 0xA0, 0x1680, 0x2028, 0x2029, 0x202F,
               0x205F, 0x3000, 0xFEFF]
      \<or> (0x2000 \<le> c \<and> c \<le> 0x200A))"

text \<open>\<open>line.replace(/^data:\s*/, '')\<close>\<close>

definition strip_data :: "jsstring \<Rightarrow> jsstring" where
  "strip_data line =
     (if startsWith (lit ''data:'') line then dropWhile is_space (drop 5 line) else line)"

text \<open>
  \<open>delta?.content ?? parsed.choices?.[0]?.message?.content\<close>, with
  \<open>delta = parsed.choices?.[0]?.delta\<close>. \<open>parsed.choices\<close> is no optional access: on
  \<open>null\<close> it throws (\<open>None\<close>).
\<close>

definition delta_content :: "json \<Rightarrow> json option" where
  "delta_content parsed =
     opt_member ''content'' (opt_member ''delta'' (opt_index0 (member ''choices'' parsed)))"

definition message_content :: "json \<Rightarrow> json option" where
  "message_content parsed =
     opt_member ''content'' (opt_member ''message'' (opt_index0 (member ''choices'' parsed)))"

definition extract_text :: "json \<Rightarrow> json option option" where
  "extract_text parsed =
     (if parsed = JNull then None
      else Some (coalesce (delta_content parsed) (message_content parsed)))"

text \<open>
  The body of \<open>try { ... } catch (err) { }\<close> for one payload: \<open>JSON.parse\<close> may throw,
  \<open>parsed.choices\<close> may throw, and \<open>res.write(text)\<close> throws for a truthy text that is
  no string; the \<open>catch\<close> ignores each of them.
\<close>

definition try_payload :: "(jsstring \<Rightarrow> json option) \<Rightarrow> jsstring \<Rightarrow> response \<Rightarrow> response" where
  "try_payload parse payload res =
     (case parse payload of
        None \<Rightarrow> res
      | Some parsed \<Rightarrow>
          (case extract_text parsed of
             None \<Rightarrow> res
           | Some text \<Rightarrow>
               if truthy text
               then (case text of Some (JStr s) \<Rightarrow> res_write s res | _ \<Rightarrow> res)
               else res))"

text \<open>The two \<open>for\<close> loops; \<open>Return\<close> is the \<open>res.end(); return\<close> at the sentinel.\<close>

datatype step = Continue response | Return response

fun process_lines :: "(jsstring \<Rightarrow> json option) \<Rightarrow> jsstring list \<Rightarrow> response \<Rightarrow> step" where
  "process_lines parse [] res = Continue res"
| "process_lines parse (line # lines) res =
     (if \<not> startsWith (lit ''data:'') line then process_lines parse lines res
      else if strip_data line = lit ''[DONE]'' then Return (res_end res)
      else process_lines parse lines (try_payload parse (strip_data line) res))"

fun process_parts :: "(jsstring \<Rightarrow> json option) \<Rightarrow> jsstring list \<Rightarrow> response \<Rightarrow> step" where
  "process_parts parse [] res = Continue res"
| "process_parts parse (part # parts) res =
     (case process_lines parse (split_lines part) res of
        Return r \<Rightarrow> Return r
      | Continue r \<Rightarrow> process_parts parse parts r)"

text \<open>
  The provider's body as the reader delivers it: the chunks of the successive
  \<open>reader.read()\<close>, then either \<open>done\<close> or a read that rejects. A body that
  delivers chunks for ever, or a read that never settles, is not such a sequence:
  the loop then has not finished.
\<close>

datatype read_end = Done | ReadError

datatype loop_exit = SawSentinel | StreamDone | ReadFailed

text \<open>
  The \<open>while (true)\<close> loop. The result is how the loop was left, the number of
  \<open>reader.read()\<close> made, and the response. \<open>split\<close> returns at least one piece
  (\<open>split_frames_nonempty\<close> below), so \<open>parts.pop()\<close> is the last piece and
  \<open>?? ''\<close> is never taken.
\<close>

fun read_loop ::
  "'d platform \<Rightarrow> 'd \<Rightarrow> jsstring \<Rightarrow> nat \<Rightarrow> byte list list \<Rightarrow> read_end \<Rightarrow> response
     \<Rightarrow> loop_exit \<times> nat \<times> response" where
  "read_loop P d buf n [] e res =
     (case e of Done \<Rightarrow> (StreamDone, Suc n, res) | ReadError \<Rightarrow> (ReadFailed, Suc n, res))"
| "read_loop P d buf n (v # rest) e res =
     (case decode_stream P d v of (d1, s) \<Rightarrow>
        (case process_parts (json_parse P) (butlast (split_frames (buf @ s))) res of
           Return r \<Rightarrow> (SawSentinel, Suc n, r)
         | Continue r \<Rightarrow> read_loop P d1 (last (split_frames (buf @ s))) (Suc n) rest e r))"

text \<open>\<open>try { while ... } catch (err) { console.error } finally { res.end() }\<close>\<close>

definition relay :: "'d platform \<Rightarrow> byte list list \<Rightarrow> read_end \<Rightarrow> response \<Rightarrow> loop_exit \<times> nat \<times> response" where
  "relay P reads e res =
     (case read_loop P (dec_init P) [] 0 reads e res of
        (exit, n, r) \<Rightarrow> (exit, n, res_end r))"


section \<open>Configuration and provider calls\<close>

text \<open>\<open>process.env\<close>: a variable is a string or \<open>undefined\<close>.\<close>

record env =
  OPENAI_API_KEY :: "jsstring option"
  OPENAI_MODEL :: "jsstring option"
  GOOGLE_API_KEY :: "jsstring option"
  GOOGLE_MODEL :: "jsstring option"

text \<open>\<open>!x\<close> for a string or \<open>undefined\<close>\<close>

fun falsy :: "jsstring option \<Rightarrow> bool" where
  "falsy None = True"
| "falsy (Some s) = (s = [])"

text \<open>\<open>x || dflt\<close> for a string or \<open>undefined\<close>\<close>

definition or_default :: "jsstring option \<Rightarrow> jsstring \<Rightarrow> jsstring" where
  "or_default x dflt = (case x of None \<Rightarrow> dflt | Some s \<Rightarrow> if s = [] then dflt else s)"

text \<open>\<open>opts.temperature ?? 0.2\<close>\<close>

definition temperature_or_default :: "json option \<Rightarrow> json" where
  "temperature_or_default t =
     (case t of None \<Rightarrow> JNum 0.2 | Some x \<Rightarrow> if x = JNull then JNum 0.2 else x)"

text \<open>One call of \<open>fetch\<close>: the request the server builds.\<close>

record outbound =
  url :: jsstring
  http_method :: string
  req_headers :: "(string \<times> jsstring) list"
  req_body :: json

text \<open>
  What \<open>fetch\<close> resolves to: \<open>ok\<close>, \<open>status\<close>, the result of \<open>text()\<close> (\<open>None\<close> when
  it rejects), the result of \<open>json()\<close>, and \<open>body\<close> (\<open>None\<close> when it is \<open>null\<close>) as
  the reads its reader delivers.
\<close>

record provider_response =
  ok :: bool
  http_status :: nat
  body_text :: "jsstring option"
  body_json :: "js_error + json"
  body_stream :: "(byte list list \<times> read_end) option"

datatype fetch_result = FetchRejects js_error | FetchResolves provider_response

text \<open>A number in a template string, for the status codes.\<close>

function decimal :: "nat \<Rightarrow> jsstring" where
  "decimal n = (if n < 10 then [of_nat (48 + n)] else decimal (n div 10) @ [of_nat (48 + n mod 10)])"
  by pat_completeness auto
termination
  by (relation "measure (\<lambda>n. n)") auto

text \<open>\<open>await providerResp.text().catch(() => '<no body>')\<close>\<close>

definition text_or_no_body :: "provider_response \<Rightarrow> jsstring" where
  "text_or_no_body resp = (case body_text resp of None \<Rightarrow> lit ''<no body>'' | Some s \<Rightarrow> s)"

definition openai_url :: jsstring where
  "openai_url = lit ''https://api.openai.com/v1/chat/completions''"

definition openai_headers :: "jsstring \<Rightarrow> (string \<times> jsstring) list" where
  "openai_headers key =
     [(''Authorization'', lit ''Bearer '' @ key), (''Content-Type'', lit ''application/json'')]"

definition user_messages :: "json \<Rightarrow> json" where
  "user_messages prompt =
     JArr [JObj [(lit ''role'', JStr (lit ''user'')), (lit ''content'', prompt)]]"

text \<open>
  \<open>streamOpenAICompletion(prompt, opts, res)\<close>. The result is the error thrown, if
  any, the response as the function leaves it, and the calls of \<open>fetch\<close> made.
\<close>

definition streamOpenAICompletion ::
  "'d platform \<Rightarrow> env \<Rightarrow> (outbound \<Rightarrow> fetch_result) \<Rightarrow> json \<Rightarrow> json option \<Rightarrow> response
     \<Rightarrow> js_error option \<times> response \<times> outbound list" where
  "streamOpenAICompletion P ev fetch prompt temperature res =
     (case OPENAI_API_KEY ev of
        None \<Rightarrow>
          (None, res_end (res_write (lit ''Missing OPENAI_API_KEY on server'') (res_status 500 res)), [])
      | Some key \<Rightarrow>
          if key = [] then
            (None, res_end (res_write (lit ''Missing OPENAI_API_KEY on server'') (res_status 500 res)), [])
          else
            let call = \<lparr>url = openai_url, http_method = ''POST'',
                        req_headers = openai_headers key,
                        req_body = JObj
                          [(lit ''model'', JStr (or_default (OPENAI_MODEL ev) (lit ''gpt-4o-mini''))),
                           (lit ''messages'', user_messages prompt),
                           (lit ''temperature'', temperature_or_default temperature),
                           (lit ''stream'', JBool True),
                           (lit ''max_tokens'', JNum 800)]\<rparr>
            in (case fetch call of
                  FetchRejects err \<Rightarrow> (Some err, res, [call])
                | FetchResolves resp \<Rightarrow>
                    (case (if ok resp then body_stream resp else None) of
                       None \<Rightarrow>
                         (None,
                          res_end_with (lit ''OpenAI error:'' @ [LF] @ text_or_no_body resp)
                            (res_setHeader ''Content-Type'' ''text/plain''
                               (res_status (http_status resp) res)),
                          [call])
                     | Some (reads, e) \<Rightarrow>
                         (None,
                          snd (snd (relay P reads e
                            (res_setHeader ''Connection'' ''keep-alive''
                               (res_setHeader ''Cache-Control'' ''no-cache''
                                  (res_setHeader ''Content-Type'' ''text/plain; charset=utf-8'' res))))),
                          [call]))))"

text \<open>\<open>callOpenAICompletionFull(prompt)\<close>: the error thrown or the content returned.\<close>

definition callOpenAICompletionFull ::
  "'d platform \<Rightarrow> env \<Rightarrow> (outbound \<Rightarrow> fetch_result) \<Rightarrow> json
     \<Rightarrow> (js_error + json) \<times> outbound list" where
  "callOpenAICompletionFull P ev fetch prompt =
     (case OPENAI_API_KEY ev of
        None \<Rightarrow> (Inl (Error (lit ''Missing OPENAI_API_KEY'')), [])
      | Some key \<Rightarrow>
          if key = [] then (Inl (Error (lit ''Missing OPENAI_API_KEY'')), [])
          else
            let call = \<lparr>url = openai_url, http_method = ''POST'',
                        req_headers = openai_headers key,
                        req_body = JObj
                          [(lit ''model'', JStr (or_default (OPENAI_MODEL ev) (lit ''gpt-4o-mini''))),
                           (lit ''messages'', user_messages prompt),
                           (lit ''max_tokens'', JNum 800),
                           (lit ''temperature'', JNum 0.2)]\<rparr>
            in (case fetch call of
                  FetchRejects err \<Rightarrow> (Inl err, [call])
                | FetchResolves resp \<Rightarrow>
                    if \<not> ok resp then
                      (Inl (Error (lit ''OpenAI error '' @ decimal (http_status resp) @ lit '': ''
                                    @ text_or_no_body resp)), [call])
                    else
                      (case body_json resp of
                         Inl err \<Rightarrow> (Inl err, [call])
                       | Inr j \<Rightarrow>
                           if j = JNull then (Inl (Thrown (null_read_error P ''choices'')), [call])
                           else
                             (case coalesce
                                (opt_member ''content'' (opt_member ''message''
                                   (opt_index0 (member ''choices'' j))))
                                (Some (JStr [])) of
                                None \<Rightarrow> (Inr (JStr []), [call])
                              | Some content \<Rightarrow> (Inr content, [call])))))"

text \<open>\<open>callGoogleGenerate(prompt, opts)\<close>\<close>

definition callGoogleGenerate ::
  "'d platform \<Rightarrow> env \<Rightarrow> (outbound \<Rightarrow> fetch_result) \<Rightarrow> json \<Rightarrow> json option
     \<Rightarrow> (js_error + json) \<times> outbound list" where
  "callGoogleGenerate P ev fetch prompt temperature =
     (case GOOGLE_API_KEY ev of
        None \<Rightarrow> (Inl (Error (lit ''Missing GOOGLE_API_KEY'')), [])
      | Some key \<Rightarrow>
          if key = [] then (Inl (Error (lit ''Missing GOOGLE_API_KEY'')), [])
          else
            let call = \<lparr>url = lit ''https://generativelanguage.googleapis.com/v1beta2/''
                              @ or_default (GOOGLE_MODEL ev) (lit ''models/text-bison-001'')
                              @ lit '':generateText?key='' @ encodeURIComponent P key,
                        http_method = ''POST'',
                        req_headers = [(''Content-Type'', lit ''application/json'')],
                        req_body = JObj
                          [(lit ''prompt'', JObj [(lit ''text'', prompt)]),
                           (lit ''temperature'', temperature_or_default temperature),
                           (lit ''candidateCount'', JNum 1),
                           (lit ''maxOutputTokens'', JNum 800)]\<rparr>
            in (case fetch call of
                  FetchRejects err \<Rightarrow> (Inl err, [call])
                | FetchResolves resp \<Rightarrow>
                    if \<not> ok resp then
                      (Inl (Error (lit ''Google API error '' @ decimal (http_status resp) @ lit '': ''
                                    @ text_or_no_body resp)), [call])
                    else
                      (case body_json resp of
                         Inl err \<Rightarrow> (Inl err, [call])
                       | Inr j \<Rightarrow>
                           (case coalesce
                              (opt_member ''content'' (opt_index0 (opt_member ''candidates'' (Some j))))
                              (Some (JStr [])) of
                              None \<Rightarrow> (Inr (JStr []), [call])
                            | Some result \<Rightarrow> (Inr result, [call])))))"

section \<open>The two endpoints\<close>

text \<open>
  What \<open>const { model, prompt, temperature } = req.body ?? {}\<close> reads from the body
  of a request: each of the three is absent or any JSON value. The handlers document
  \<open>{ model: string, prompt: string, temperature?: number }\<close> and check no type.
\<close>

record chat_request =
  model :: "json option"
  prompt :: "json option"
  temperature :: "json option"

definition json_error :: "jsstring \<Rightarrow> json" where
  "json_error msg = JObj [(lit ''error'', JStr msg)]"

definition json_text :: "json \<Rightarrow> json" where
  "json_text v = JObj [(lit ''text'', v)]"

text \<open>\<open>prompt.split('').reverse().join('').slice(0, 800)\<close>\<close>

definition reversed_prompt :: "jsstring \<Rightarrow> jsstring" where
  "reversed_prompt p = take 800 (rev p)"

text \<open>The \<open>catch\<close> of \<open>/api/chat\<close>\<close>

definition chat_catch :: "js_error \<Rightarrow> response \<Rightarrow> response" where
  "chat_catch err res =
     (if \<not> headersSent res then res_json (json_error (String_err err)) (res_status 500 res)
      else res_end res)"

text \<open>
  \<open>POST /api/chat\<close>: the response and the calls of \<open>fetch\<close> made. In the last
  branch the template string converts the model first, then \<open>prompt.split\<close> is
  called, which only a string has; either may throw, before any header is set.
\<close>

definition api_chat ::
  "'d platform \<Rightarrow> env \<Rightarrow> (outbound \<Rightarrow> fetch_result) \<Rightarrow> chat_request \<Rightarrow> response \<times> outbound list" where
  "api_chat P ev fetch req =
     (if \<not> truthy (model req) \<or> \<not> truthy (prompt req) then
        (res_json (json_error (lit ''model and prompt are required'')) (res_status 400 new_response), [])
      else
        (case (model req, prompt req) of
           (Some m, Some p) \<Rightarrow>
             if m = JStr (lit ''chatgpt'') then
               (case streamOpenAICompletion P ev fetch p (temperature req) new_response of
                  (None, res, calls) \<Rightarrow> (res, calls)
                | (Some err, res, calls) \<Rightarrow> (chat_catch err res, calls))
             else if m = JStr (lit ''googleai'') then
               (case callGoogleGenerate P ev fetch p (temperature req) of
                  (Inl err, calls) \<Rightarrow> (chat_catch err new_response, calls)
                | (Inr out, calls) \<Rightarrow>
                    (let res = res_setHeader ''Cache-Control'' ''no-cache''
                                 (res_setHeader ''Content-Type'' ''text/plain; charset=utf-8'' new_response)
                     in case out of
                          JStr s \<Rightarrow> (res_end (res_write s res), calls)
                        | _ \<Rightarrow> (chat_catch (Thrown (chunk_type_error P out)) res, calls)))
             else
               (case template_string P m of
                  Inl err \<Rightarrow> (chat_catch err new_response, [])
                | Inr label \<Rightarrow>
                    (case p of
                       JStr s \<Rightarrow>
                         (res_end (res_write
                            (lit ''Simulated reply for model '' @ [0x22] @ label @ [0x22] @ lit '':''
                               @ [LF, LF] @ reversed_prompt s)
                            (res_setHeader ''Cache-Control'' ''no-cache''
                               (res_setHeader ''Content-Type'' ''text/plain; charset=utf-8''
                                  new_response))), [])
                     | _ \<Rightarrow>
                         (chat_catch (Thrown (not_function_error P ''prompt.split'')) new_response, [])))
         | _ \<Rightarrow>
             (res_json (json_error (lit ''model and prompt are required''))
                (res_status 400 new_response), [])))"

text \<open>\<open>POST /api/chat-sync\<close>\<close>

definition api_chat_sync ::
  "'d platform \<Rightarrow> env \<Rightarrow> (outbound \<Rightarrow> fetch_result) \<Rightarrow> chat_request \<Rightarrow> response \<times> outbound list" where
  "api_chat_sync P ev fetch req =
     (if \<not> truthy (model req) \<or> \<not> truthy (prompt req) then
        (res_json (json_error (lit ''model and prompt required'')) (res_status 400 new_response), [])
      else
        (case (model req, prompt req) of
           (Some m, Some p) \<Rightarrow>
             if m = JStr (lit ''chatgpt'') then
               (case callOpenAICompletionFull P ev fetch p of
                  (Inl err, calls) \<Rightarrow>
                    (res_json (json_error (String_err err)) (res_status 500 new_response), calls)
                | (Inr txt, calls) \<Rightarrow> (res_json (json_text txt) new_response, calls))
             else if m = JStr (lit ''googleai'') then
               (case callGoogleGenerate P ev fetch p None of
                  (Inl err, calls) \<Rightarrow>
                    (res_json (json_error (String_err err)) (res_status 500 new_response), calls)
                | (Inr txt, calls) \<Rightarrow> (res_json (json_text txt) new_response, calls))
             else
               (case template_string P m of
                  Inl err \<Rightarrow>
                    (res_json (json_error (String_err err)) (res_status 500 new_response), [])
                | Inr label \<Rightarrow>
                    (case p of
                       JStr s \<Rightarrow>
                         (res_json (json_text (JStr
                            (lit ''Simulated full response for '' @ label @ lit '': ''
                               @ reversed_prompt s)))
                            new_response, [])
                     | _ \<Rightarrow>
                         (res_json (json_error (not_function_error P ''prompt.split''))
                            (res_status 500 new_response), [])))
         | _ \<Rightarrow>
             (res_json (json_error (lit ''model and prompt required'')) (res_status 400 new_response), [])))"

text \<open>What a client reads from a response: the text streamed, the JSON body.\<close>

fun streamed_text :: "wire_event list \<Rightarrow> jsstring" where
  "streamed_text [] = []"
| "streamed_text (Fragment s # evs) = s @ streamed_text evs"
| "streamed_text (_ # evs) = streamed_text evs"

fun json_bodies :: "wire_event list \<Rightarrow> json list" where
  "json_bodies [] = []"
| "json_bodies (JsonBody v # evs) = v # json_bodies evs"
| "json_bodies (_ # evs) = json_bodies evs"


text \<open>The \<open>text\<close> field of the JSON body of a response.\<close>

definition response_text :: "wire_event list \<Rightarrow> json option" where
  "response_text evs = (case json_bodies evs of [v] \<Rightarrow> member ''text'' v | _ \<Rightarrow> None)"

section \<open>The relay in one pass\<close>

text \<open>
  The fragments of a provider stream as the specification describes them, computed
  from the whole decoded text at once: every complete frame in order, every data
  line of a frame in order, the text of a payload when it is a non-empty string
  (the delta field, else the full-message field), up to the termination sentinel.
  The flag tells whether the sentinel was met.
\<close>

definition spec_payload_fragment :: "(jsstring \<Rightarrow> json option) \<Rightarrow> jsstring \<Rightarrow> jsstring option" where
  "spec_payload_fragment parse payload =
     (case parse payload of
        None \<Rightarrow> None
      | Some v \<Rightarrow>
          (case coalesce (delta_content v) (message_content v) of
             Some (JStr s) \<Rightarrow> if s = [] then None else Some s
           | _ \<Rightarrow> None))"

fun spec_lines_fragments :: "(jsstring \<Rightarrow> json option) \<Rightarrow> jsstring list \<Rightarrow> jsstring list \<times> bool" where
  "spec_lines_fragments parse [] = ([], False)"
| "spec_lines_fragments parse (l # ls) =
     (if \<not> startsWith (lit ''data:'') l then spec_lines_fragments parse ls
      else if strip_data l = lit ''[DONE]'' then ([], True)
      else (case spec_lines_fragments parse ls of (fs, stop) \<Rightarrow>
              (case spec_payload_fragment parse (strip_data l) of
                 None \<Rightarrow> (fs, stop)
               | Some f \<Rightarrow> (f # fs, stop))))"

fun spec_frames_fragments :: "(jsstring \<Rightarrow> json option) \<Rightarrow> jsstring list \<Rightarrow> jsstring list \<times> bool" where
  "spec_frames_fragments parse [] = ([], False)"
| "spec_frames_fragments parse (p # ps) =
     (case spec_lines_fragments parse (split_lines p) of (fs, stop) \<Rightarrow>
        if stop then (fs, True)
        else (case spec_frames_fragments parse ps of (gs, stop') \<Rightarrow> (fs @ gs, stop')))"

definition spec_stream_fragments :: "'d platform \<Rightarrow> byte list \<Rightarrow> jsstring list \<times> bool" where
  "spec_stream_fragments P bytes =
     spec_frames_fragments (json_parse P)
       (butlast (split_frames (snd (decode_stream P (dec_init P) bytes))))"

text \<open>
  The fields of a payload as the specification names them: the value found by
  following a path of member names and first elements from the parsed payload, absent
  (\<open>None\<close>) as soon as a step is missing or leads through \<open>null\<close>. The delta field is
  \<open>choices[0].delta.content\<close>, the full-message field \<open>choices[0].message.content\<close>,
  and the text of a payload is the delta field when it is present (neither absent
  nor \<open>null\<close>), the full-message field otherwise.
\<close>

datatype path_step = Key string | First

fun spec_path :: "path_step list \<Rightarrow> json option \<Rightarrow> json option" where
  "spec_path [] x = x"
| "spec_path (Key k # steps) x =
     (case x of None \<Rightarrow> None
      | Some v \<Rightarrow> if v = JNull then None else spec_path steps (member k v))"
| "spec_path (First # steps) x =
     (case x of None \<Rightarrow> None
      | Some v \<Rightarrow> if v = JNull then None else spec_path steps (index0 v))"

definition spec_delta_field :: "json \<Rightarrow> json option" where
  "spec_delta_field v = spec_path [Key ''choices'', First, Key ''delta'', Key ''content''] (Some v)"

definition spec_message_field :: "json \<Rightarrow> json option" where
  "spec_message_field v = spec_path [Key ''choices'', First, Key ''message'', Key ''content''] (Some v)"

definition spec_text :: "json \<Rightarrow> json option" where
  "spec_text v = (if nullish (spec_delta_field v) then spec_message_field v else spec_delta_field v)"

text \<open>
  The sentinel line, and the fragments of lines read one after the other with no
  stop: each data line gives the text of its payload, if it has one.
\<close>

definition sentinel_line :: "jsstring \<Rightarrow> bool" where
  "sentinel_line l = (startsWith (lit ''data:'') l \<and> strip_data l = lit ''[DONE]'')"

definition spec_line_fragment :: "(jsstring \<Rightarrow> json option) \<Rightarrow> jsstring \<Rightarrow> jsstring option" where
  "spec_line_fragment parse l =
     (if startsWith (lit ''data:'') l then spec_payload_fragment parse (strip_data l) else None)"

fun spec_plain_fragments :: "(jsstring \<Rightarrow> json option) \<Rightarrow> jsstring list \<Rightarrow> jsstring list" where
  "spec_plain_fragments parse [] = []"
| "spec_plain_fragments parse (l # ls) =
     (case spec_line_fragment parse l of
        None \<Rightarrow> spec_plain_fragments parse ls
      | Some f \<Rightarrow> f # spec_plain_fragments parse ls)"

definition write_all :: "jsstring list \<Rightarrow> response \<Rightarrow> response" where
  "write_all fs res = foldl (\<lambda>r s. res_write s r) res fs"

fun final :: "step \<Rightarrow> response" where
  "final (Continue r) = r"
| "final (Return r) = r"

section \<open>A concrete platform\<close>

text \<open>
  The UTF-8 decoder of a \<open>TextDecoder\<close> (not fatal, the byte order mark not ignored),
  byte by byte: the code point under construction, the bytes seen and needed, the
  bounds of the next byte, and whether the first code point has passed.
\<close>

record utf8_decoder =
  code_point :: nat
  bytes_seen :: nat
  bytes_needed :: nat
  lower_boundary :: nat
  upper_boundary :: nat
  bom_seen :: bool

definition utf8_start :: utf8_decoder where
  "utf8_start = \<lparr>code_point = 0, bytes_seen = 0, bytes_needed = 0,
                  lower_boundary = 0x80, upper_boundary = 0xBF, bom_seen = False\<rparr>"

definition utf8_lead :: "utf8_decoder \<Rightarrow> nat \<Rightarrow> utf8_decoder \<times> nat list" where
  "utf8_lead st b =
     (if b \<le> 0x7F then (st, [b])
      else if 0xC2 \<le> b \<and> b \<le> 0xDF then (st\<lparr>bytes_needed := 1, code_point := b mod 0x20\<rparr>, [])
      else if 0xE0 \<le> b \<and> b \<le> 0xEF then
        (st\<lparr>lower_boundary := (if b = 0xE0 then 0xA0 else 0x80),
            upper_boundary := (if b = 0xED then 0x9F else 0xBF),
            bytes_needed := 2, code_point := b mod 0x10\<rparr>, [])
      else if 0xF0 \<le> b \<and> b \<le> 0xF4 then
        (st\<lparr>lower_boundary := (if b = 0xF0 then 0x90 else 0x80),
            upper_boundary := (if b = 0xF4 then 0x8F else 0xBF),
            bytes_needed := 3, code_point := b mod 8\<rparr>, [])
      else (st, [0xFFFD]))"

definition utf8_clear :: "utf8_decoder \<Rightarrow> utf8_decoder" where
  "utf8_clear st = st\<lparr>code_point := 0, bytes_seen := 0, bytes_needed := 0,
                       lower_boundary := 0x80, upper_boundary := 0xBF\<rparr>"

definition utf8_handler :: "utf8_decoder \<Rightarrow> nat \<Rightarrow> utf8_decoder \<times> nat list" where
  "utf8_handler st b =
     (if bytes_needed st = 0 then utf8_lead st b
      else if b < lower_boundary st \<or> upper_boundary st < b then
        (case utf8_lead (utf8_clear st) b of (st1, cps) \<Rightarrow> (st1, 0xFFFD # cps))
      else
        (let st1 = st\<lparr>lower_boundary := 0x80, upper_boundary := 0xBF,
                        code_point := code_point st * 0x40 + b mod 0x40,
                        bytes_seen := Suc (bytes_seen st)\<rparr>
         in if bytes_seen st1 \<noteq> bytes_needed st1 then (st1, [])
            else (utf8_clear st1, [code_point st1])))"

definition utf16 :: "nat \<Rightarrow> jsstring" where
  "utf16 cp =
     (if cp < 0x10000 then [of_nat cp]
      else [of_nat (0xD800 + (cp - 0x10000) div 0x400), of_nat (0xDC00 + (cp - 0x10000) mod 0x400)])"

fun serialize :: "utf8_decoder \<Rightarrow> nat list \<Rightarrow> utf8_decoder \<times> jsstring" where
  "serialize st [] = (st, [])"
| "serialize st (cp # cps) =
     (if \<not> bom_seen st \<and> cp = 0xFEFF then serialize (st\<lparr>bom_seen := True\<rparr>) cps
      else (case serialize (st\<lparr>bom_seen := True\<rparr>) cps of (st1, out) \<Rightarrow> (st1, utf16 cp @ out)))"

definition utf8_byte :: "utf8_decoder \<Rightarrow> byte \<Rightarrow> utf8_decoder \<times> jsstring" where
  "utf8_byte st b = (case utf8_handler st (unat b) of (st1, cps) \<Rightarrow> serialize st1 cps)"

text \<open>Payloads of a sample provider and what \<open>JSON.parse\<close> makes of them.\<close>

definition delta_payload :: "jsstring \<Rightarrow> jsstring" where
  "delta_payload s = lit ''{\"choices\":[{\"delta\":{\"content\":\"'' @ s @ lit ''\"}}]}''"

definition delta_value :: "jsstring \<Rightarrow> json" where
  "delta_value s =
     JObj [(lit ''choices'', JArr [JObj [(lit ''delta'', JObj [(lit ''content'', JStr s)])]])]"

definition message_payload :: "jsstring \<Rightarrow> jsstring" where
  "message_payload s = lit ''{\"choices\":[{\"message\":{\"content\":\"'' @ s @ lit ''\"}}]}''"

definition message_value :: "jsstring \<Rightarrow> json" where
  "message_value s =
     JObj [(lit ''choices'', JArr [JObj [(lit ''message'', JObj [(lit ''content'', JStr s)])]])]"

definition sample_parse :: "jsstring \<Rightarrow> json option" where
  "sample_parse s =
     (if s = delta_payload (lit ''Hel'') then Some (delta_value (lit ''Hel''))
      else if s = delta_payload (lit ''lo'') then Some (delta_value (lit ''lo''))
      else if s = delta_payload [0xE9] then Some (delta_value [0xE9])
      else if s = delta_payload [] then Some (delta_value [])
      else if s = message_payload (lit ''Hi'') then Some (message_value (lit ''Hi''))
      else if s = lit ''null'' then Some JNull
      else if s = lit ''7'' then Some (JNum 7)
      else None)"

text \<open>
  A sample conversion to a string: right on \<open>null\<close>, booleans, natural numbers,
  arrays of these, and objects with no \<open>toString\<close> or \<open>valueOf\<close> of their own.
\<close>

fun join_comma :: "jsstring list \<Rightarrow> jsstring" where
  "join_comma [] = []"
| "join_comma [s] = s"
| "join_comma (s # r # rest) = s @ lit '','' @ join_comma (r # rest)"

fun sample_to_string :: "json \<Rightarrow> jsstring" where
  "sample_to_string JNull = lit ''null''"
| "sample_to_string (JBool b) = lit (if b then ''true'' else ''false'')"
| "sample_to_string (JNum x) = decimal (nat \<lfloor>x\<rfloor>)"
| "sample_to_string (JStr s) = s"
| "sample_to_string (JArr xs) =
     join_comma (map (\<lambda>v. if v = JNull then [] else sample_to_string v) xs)"
| "sample_to_string (JObj kvs) = lit ''[object Object]''"

definition sample_platform :: "utf8_decoder platform" where
  "sample_platform =
     \<lparr>json_parse = sample_parse, dec_init = utf8_start, dec_byte = utf8_byte,
      encodeURIComponent = (\<lambda>s. s),
      to_string = (\<lambda>v. Inr (sample_to_string v)),
      chunk_type_error = (\<lambda>v. lit ''TypeError: The chunk argument must be of type string''),
      null_read_error = (\<lambda>k. lit ''TypeError: Cannot read properties of null (reading '' @ lit k @ lit '')''),
      not_function_error = (\<lambda>k. lit ''TypeError: '' @ lit k @ lit '' is not a function'')\<rparr>"

text \<open>The bytes of one data line followed by the frame delimiter.\<close>

definition data_frame :: "byte list \<Rightarrow> byte list" where
  "data_frame payload = ascii_bytes ''data: '' @ payload @ [0x0A, 0x0A]"

definition delta_bytes :: "byte list \<Rightarrow> byte list" where
  "delta_bytes s = ascii_bytes ''{\"choices\":[{\"delta\":{\"content\":\"'' @ s @ ascii_bytes ''\"}}]}''"


definition sample_reads :: "byte list list" where
  "sample_reads =
     [data_frame (delta_bytes (ascii_bytes ''Hel'')),
      data_frame (delta_bytes (ascii_bytes ''lo'')),
      data_frame (ascii_bytes ''[DONE]'')]"

definition sample_env :: env where
  "sample_env = \<lparr>OPENAI_API_KEY = Some (lit ''sk-sample''), OPENAI_MODEL = None,
                   GOOGLE_API_KEY = Some (lit ''g-sample''), GOOGLE_MODEL = None\<rparr>"

definition no_keys_env :: env where
  "no_keys_env = \<lparr>OPENAI_API_KEY = None, OPENAI_MODEL = None,
                    GOOGLE_API_KEY = Some [], GOOGLE_MODEL = None\<rparr>"

text \<open>
  A sample provider: OpenAI streams \<open>Hel\<close>, \<open>lo\<close> and the sentinel when asked to
  stream and answers \<open>Hello\<close> otherwise; Google answers \<open>Hello\<close>.
\<close>

definition sample_fetch :: "outbound \<Rightarrow> fetch_result" where
  "sample_fetch call =
     (if url call = openai_url then
        (if member ''stream'' (req_body call) = Some (JBool True) then
           FetchResolves \<lparr>ok = True, http_status = 200, body_text = None,
                          body_json = Inl (Thrown (lit ''SyntaxError: Unexpected token d'')),
                          body_stream = Some (sample_reads, Done)\<rparr>
         else
           FetchResolves \<lparr>ok = True, http_status = 200, body_text = None,
                          body_json = Inr (message_value (lit ''Hello'')),
                          body_stream = Some ([], Done)\<rparr>)
      else
        FetchResolves \<lparr>ok = True, http_status = 200, body_text = None,
                       body_json = Inr (JObj [(lit ''candidates'',
                                       JArr [JObj [(lit ''content'', JStr (lit ''Hello''))]])]),
                       body_stream = Some ([], Done)\<rparr>)"


text \<open>
  The same two frames in one read, and cut inside the two bytes of a character,
  inside the delimiter and inside a payload.
\<close>

definition whole_read :: "byte list list" where
  "whole_read = [data_frame (delta_bytes [0xC3, 0xA9]) @ data_frame (delta_bytes (ascii_bytes ''lo''))]"

definition split_reads :: "byte list list" where
  "split_reads =
     [ascii_bytes ''data: {\"choices\":[{\"delta\":{\"content\":\"'' @ [0xC3],
      [0xA9] @ ascii_bytes ''\"}}]}'' @ [0x0A],
      [0x0A] @ ascii_bytes ''data: {\"choices\":[{\"del'',
      ascii_bytes ''ta\":{\"content\":\"lo\"}}]}'' @ [0x0A, 0x0A]]"

text \<open>
  A stream whose second read holds a frame of three data lines, the sentinel in the
  middle, and one more frame.
\<close>

definition sentinel_reads :: "byte list list" where
  "sentinel_reads =
     [data_frame (delta_bytes (ascii_bytes ''Hel'')),
      ascii_bytes ''data: '' @ delta_bytes (ascii_bytes ''lo'') @ [0x0A]
        @ ascii_bytes ''data: [DONE]'' @ [0x0A]
        @ data_frame (delta_bytes (ascii_bytes ''Hel''))
        @ data_frame (delta_bytes (ascii_bytes ''lo''))]"

text \<open>A stream that breaks off inside a frame, with no sentinel.\<close>

definition broken_reads :: "byte list list" where
  "broken_reads =
     [data_frame (delta_bytes (ascii_bytes ''Hel'')) @ ascii_bytes ''data: {\"cho'']"

section \<open>Facts about strings and splitting\<close>

lemma of_char_bound: "(of_char c :: nat) < 65536"
proof -
  have "(of_char c :: nat) mod 256 < 256" by (rule mod_less_divisor) simp
  then have "(of_char c :: nat) < 256" by (simp only: of_char_mod_256)
  then show ?thesis by (rule less_trans) simp
qed

lemma jschar_of_char_inj: "(of_nat (of_char c) :: jschar) = of_nat (of_char d) \<longleftrightarrow> c = d"
proof
  assume eq: "(of_nat (of_char c) :: jschar) = of_nat (of_char d)"
  from eq have "unat (of_nat (of_char c) :: jschar) = unat (of_nat (of_char d) :: jschar)"
    by simp
  then have "(of_char c :: nat) = of_char d"
    using of_char_bound [of c] of_char_bound [of d] by (simp add: unat_of_nat)
  then show "c = d" by simp
qed simp

lemma lit_eq_iff [simp]: "lit a = lit b \<longleftrightarrow> a = b"
proof (induction a arbitrary: b)
  case Nil
  then show ?case by (auto simp: lit_def)
next
  case (Cons x xs)
  then show ?case by (cases b) (auto simp: lit_def jschar_of_char_inj)
qed

lemma lit_Nil_iff [simp]: "lit a = [] \<longleftrightarrow> a = []"
  by (simp add: lit_def)

lemma split_frames_nonempty [simp]: "split_frames x \<noteq> []"
  by (induction x rule: split_frames.induct) (auto split: list.splits elim: cons_first.elims)

lemma cons_first_nonempty [simp]: "cons_first c xs \<noteq> []"
  by (cases xs) auto

lemma split_frames_single: "split_frames x = [y] \<Longrightarrow> y = x"
  apply (induction x arbitrary: y rule: split_frames.induct)
    apply (auto split: if_splits elim!: cons_first.elims)
  done

lemma split_frames_append:
  "split_frames (a @ b) = butlast (split_frames a) @ split_frames (last (split_frames a) @ b)"
proof (induction a rule: split_frames.induct)
  case 1
  then show ?case by simp
next
  case (2 c)
  then show ?case by simp
next
  case (3 c d cs)
  show ?case
  proof (cases "c = LF \<and> d = LF")
    case True
    with 3 show ?thesis by simp
  next
    case False
    show ?thesis
    proof (cases "split_frames (d # cs)")
      case Nil
      then show ?thesis using split_frames_nonempty by blast
    next
      case (Cons y ys)
      show ?thesis
      proof (cases ys)
        case Nil
        with Cons have y: "y = d # cs" using split_frames_single by blast
        have "split_frames ((c # d # cs) @ b) = cons_first c (split_frames (d # cs @ b))"
          using False by auto
        moreover have "split_frames (c # d # cs) = [c # d # cs]"
          using False Cons Nil y by auto
        ultimately show ?thesis by simp
      next
        case (Cons y' ys')
        have "split_frames ((c # d # cs) @ b) = cons_first c (split_frames ((d # cs) @ b))"
          using False by auto
        moreover have "split_frames (c # d # cs) = (c # y) # y' # ys'"
          using False Cons \<open>split_frames (d # cs) = y # ys\<close> by auto
        ultimately show ?thesis
          using 3(2) [OF False] Cons \<open>split_frames (d # cs) = y # ys\<close> by simp
      qed
    qed
  qed
qed

lemma split_frames_last: "split_frames (last (split_frames x)) = [last (split_frames x)]"
proof (induction x rule: split_frames.induct)
  case 1
  then show ?case by simp
next
  case (2 c)
  then show ?case by simp
next
  case (3 c d cs)
  show ?case
  proof (cases "c = LF \<and> d = LF")
    case True
    with 3 show ?thesis by simp
  next
    case False
    show ?thesis
    proof (cases "split_frames (d # cs)")
      case Nil
      then show ?thesis using split_frames_nonempty by blast
    next
      case (Cons y ys)
      show ?thesis
      proof (cases ys)
        case Nil
        with Cons have y: "y = d # cs" using split_frames_single by blast
        have "split_frames (c # d # cs) = [c # d # cs]"
          using False Cons Nil y by auto
        then show ?thesis by simp
      next
        case (Cons y' ys')
        have "split_frames (c # d # cs) = (c # y) # y' # ys'"
          using False Cons \<open>split_frames (d # cs) = y # ys\<close> by auto
        then show ?thesis
          using 3(2) [OF False] Cons \<open>split_frames (d # cs) = y # ys\<close> by simp
      qed
    qed
  qed
qed

lemma decode_stream_append:
  "decode_stream P d (a @ b) =
     (case decode_stream P d a of (d1, s1) \<Rightarrow>
        (case decode_stream P d1 b of (d2, s2) \<Rightarrow> (d2, s1 @ s2)))"
  by (induction a arbitrary: d) (auto split: prod.splits)

lemma process_parts_append:
  "process_parts parse (xs @ ys) res =
     (case process_parts parse xs res of Return r \<Rightarrow> Return r
      | Continue r \<Rightarrow> process_parts parse ys r)"
  by (induction xs arbitrary: res) (auto split: step.splits)



section \<open>The relay loop and the one-pass fragments\<close>

lemma write_all_Nil [simp]: "write_all [] res = res"
  by (simp add: write_all_def)

lemma write_all_Cons [simp]: "write_all (f # fs) res = write_all fs (res_write f res)"
  by (simp add: write_all_def)

lemma write_all_append: "write_all (fs @ gs) res = write_all gs (write_all fs res)"
  by (simp add: write_all_def)

lemma finished_res_write [simp]: "finished (res_write s res) = finished res"
  by (simp add: res_write_def)

lemma finished_write_all [simp]: "finished (write_all fs res) = finished res"
  by (induction fs arbitrary: res) auto

lemma finished_res_end [simp]: "finished (res_end res)"
  by (simp add: res_end_def)

lemma res_end_idem [simp]: "res_end (res_end res) = res_end res"
  by (simp add: res_end_def)

lemma nullish_JNull_paths:
  "coalesce (delta_content JNull) (message_content JNull) = None"
  by (simp add: coalesce_def delta_content_def message_content_def opt_member_def opt_index0_def)

lemma truthy_text_cases:
  "(if truthy t then (case t of Some (JStr s) \<Rightarrow> res_write s res | _ \<Rightarrow> res) else res) =
   (case t of Some (JStr s) \<Rightarrow> if s = [] then res else res_write s res | _ \<Rightarrow> res)"
  by (cases t rule: truthy.cases) auto

lemma try_payload_spec:
  "try_payload parse payload res =
     (case spec_payload_fragment parse payload of None \<Rightarrow> res | Some s \<Rightarrow> res_write s res)"
proof (cases "parse payload")
  case None
  then show ?thesis by (simp add: try_payload_def spec_payload_fragment_def)
next
  case (Some v)
  show ?thesis
  proof (cases "v = JNull")
    case True
    with Some show ?thesis
      by (simp add: try_payload_def spec_payload_fragment_def extract_text_def nullish_JNull_paths)
  next
    case False
    with Some show ?thesis
      by (simp add: try_payload_def spec_payload_fragment_def extract_text_def truthy_text_cases
          split: option.splits json.splits)
  qed
qed

lemma process_lines_spec:
  "process_lines parse ls res =
     (case spec_lines_fragments parse ls of
        (fs, stop) \<Rightarrow> if stop then Return (res_end (write_all fs res))
                      else Continue (write_all fs res))"
  by (induction ls arbitrary: res)
     (auto simp: try_payload_spec split: prod.splits option.splits)

lemma process_parts_spec:
  "process_parts parse ps res =
     (case spec_frames_fragments parse ps of
        (fs, stop) \<Rightarrow> if stop then Return (res_end (write_all fs res))
                      else Continue (write_all fs res))"
  by (induction ps arbitrary: res)
     (auto simp: process_lines_spec write_all_append split: prod.splits)

lemma read_loop_response:
  "split_frames buf = [buf] \<Longrightarrow>
   snd (snd (read_loop P d buf n reads e res)) =
     final (process_parts (json_parse P)
       (butlast (split_frames (buf @ snd (decode_stream P d (concat reads))))) res)"
proof (induction reads arbitrary: d buf n res)
  case Nil
  then show ?case by (simp split: read_end.splits)
next
  case (Cons v rest)
  obtain d1 s where ds: "decode_stream P d v = (d1, s)" by (cases "decode_stream P d v")
  obtain d2 s2 where ds2: "decode_stream P d1 (concat rest) = (d2, s2)"
    by (cases "decode_stream P d1 (concat rest)")
  let ?parts = "split_frames (buf @ s)"
  have whole: "split_frames (buf @ snd (decode_stream P d (v @ concat rest)))
      = butlast ?parts @ split_frames (last ?parts @ s2)"
    using split_frames_append [of "buf @ s" s2] by (simp add: decode_stream_append ds ds2)
  have bl: "butlast (butlast ?parts @ split_frames (last ?parts @ s2))
      = butlast ?parts @ butlast (split_frames (last ?parts @ s2))"
    by (simp add: butlast_append)
  show ?case
  proof (cases "process_parts (json_parse P) (butlast ?parts) res")
    case (Return r)
    then show ?thesis
      by (simp add: ds whole bl process_parts_append)
  next
    case (Continue r)
    have "snd (snd (read_loop P d1 (last ?parts) (Suc n) rest e r)) =
       final (process_parts (json_parse P)
         (butlast (split_frames (last ?parts @ snd (decode_stream P d1 (concat rest))))) r)"
      by (rule Cons.IH) (rule split_frames_last)
    with Continue show ?thesis
      by (simp add: ds ds2 whole bl process_parts_append)
  qed
qed


lemmas res_defs = new_response_def res_status_def res_setHeader_def res_write_def res_end_def
  res_end_with_def res_json_def

section \<open>The request router\<close>

text \<open>
  C6. A request to \<open>POST /api/chat\<close> or \<open>POST /api/chat-sync\<close> whose model or prompt is
  absent or empty (or any other value that is not truthy) is answered with status
  400 and a JSON error body; no provider is called and nothing else is written.
\<close>

theorem validation_rejects:
  assumes "\<not> truthy (model req) \<or> \<not> truthy (prompt req)"
  shows "api_chat P ev fetch req =
           (\<lparr>status = 400, headers = [(''Content-Type'', ''application/json; charset=utf-8'')],
             headersSent = True,
             wire = [JsonBody (json_error (lit ''model and prompt are required'')), Close],
             finished = True\<rparr>, [])
       \<and> api_chat_sync P ev fetch req =
           (\<lparr>status = 400, headers = [(''Content-Type'', ''application/json; charset=utf-8'')],
             headersSent = True,
             wire = [JsonBody (json_error (lit ''model and prompt required'')), Close],
             finished = True\<rparr>, [])"
  using assms by (simp add: api_chat_def api_chat_sync_def res_defs)

theorem validation_rejects_witness:
  "api_chat sample_platform sample_env sample_fetch
       \<lparr>model = Some (JStr (lit ''chatgpt'')), prompt = Some (JStr []), temperature = Some (JNum 1)\<rparr> =
     (\<lparr>status = 400, headers = [(''Content-Type'', ''application/json; charset=utf-8'')],
       headersSent = True,
       wire = [JsonBody (json_error (lit ''model and prompt are required'')), Close],
       finished = True\<rparr>, [])
   \<and> api_chat_sync sample_platform sample_env sample_fetch
       \<lparr>model = None, prompt = Some (JStr (lit ''Hi'')), temperature = None\<rparr> =
     (\<lparr>status = 400, headers = [(''Content-Type'', ''application/json; charset=utf-8'')],
       headersSent = True,
       wire = [JsonBody (json_error (lit ''model and prompt required'')), Close],
       finished = True\<rparr>, [])"
  using validation_rejects [where P = sample_platform and ev = sample_env and fetch = sample_fetch
      and req = "\<lparr>model = Some (JStr (lit ''chatgpt'')), prompt = Some (JStr []),
                  temperature = Some (JNum 1)\<rparr>"]
    validation_rejects [where P = sample_platform and ev = sample_env and fetch = sample_fetch
      and req = "\<lparr>model = None, prompt = Some (JStr (lit ''Hi'')), temperature = None\<rparr>"]
  by simp

text \<open>
  C7, as amended. For a request whose model is truthy, is neither the string
  \<open>chatgpt\<close> nor the string \<open>googleai\<close> and converts to the label (a string model is its
  own label): when the prompt is a non-empty string, both endpoints answer with
  status 200 and a placeholder text, the label in a fixed frame followed by the
  prompt reversed and cut to 800 code units; the text is not empty, no provider is
  called, and the answer depends on the model and the prompt only. When the prompt
  is truthy and no string, \<open>prompt.split\<close> throws and both endpoints answer with
  status 500 and a JSON error body.
\<close>

theorem unknown_model_placeholder:
  assumes "model req = Some m" and "truthy (Some m)"
    and "m \<noteq> JStr (lit ''chatgpt'')" and "m \<noteq> JStr (lit ''googleai'')"
    and "template_string P m = Inr label"
    and "prompt req = Some p" and "truthy (Some p)"
  shows "(\<forall>s. m = JStr s \<longrightarrow> label = s)
       \<and> (\<forall>s. p = JStr s \<longrightarrow>
            api_chat P ev fetch req =
              (\<lparr>status = 200,
                headers = [(''Content-Type'', ''text/plain; charset=utf-8''),
                           (''Cache-Control'', ''no-cache'')],
                headersSent = True,
                wire = [Fragment (lit ''Simulated reply for model '' @ [0x22] @ label @ [0x22]
                          @ lit '':'' @ [LF, LF] @ take 800 (rev s)), Close],
                finished = True\<rparr>, [])
          \<and> api_chat_sync P ev fetch req =
              (\<lparr>status = 200, headers = [(''Content-Type'', ''application/json; charset=utf-8'')],
                headersSent = True,
                wire = [JsonBody (json_text (JStr (lit ''Simulated full response for '' @ label
                          @ lit '': '' @ take 800 (rev s)))), Close],
                finished = True\<rparr>, [])
          \<and> lit ''Simulated reply for model '' @ [0x22] @ label @ [0x22] @ lit '':'' @ [LF, LF]
                @ take 800 (rev s) \<noteq> []
          \<and> lit ''Simulated full response for '' @ label @ lit '': '' @ take 800 (rev s) \<noteq> []
          \<and> length (take 800 (rev s)) \<le> 800)
       \<and> ((\<forall>s. p \<noteq> JStr s) \<longrightarrow>
            api_chat P ev fetch req =
              (\<lparr>status = 500, headers = [(''Content-Type'', ''application/json; charset=utf-8'')],
                headersSent = True,
                wire = [JsonBody (json_error (not_function_error P ''prompt.split'')), Close],
                finished = True\<rparr>, [])
          \<and> api_chat_sync P ev fetch req =
              (\<lparr>status = 500, headers = [(''Content-Type'', ''application/json; charset=utf-8'')],
                headersSent = True,
                wire = [JsonBody (json_error (not_function_error P ''prompt.split'')), Close],
                finished = True\<rparr>, []))"
proof -
  have lab: "\<forall>s. m = JStr s \<longrightarrow> label = s"
    using assms(5) by (auto simp: template_string_def)
  have str: "api_chat P ev fetch req =
              (\<lparr>status = 200,
                headers = [(''Content-Type'', ''text/plain; charset=utf-8''),
                           (''Cache-Control'', ''no-cache'')],
                headersSent = True,
                wire = [Fragment (lit ''Simulated reply for model '' @ [0x22] @ label @ [0x22]
                          @ lit '':'' @ [LF, LF] @ take 800 (rev s)), Close],
                finished = True\<rparr>, [])
          \<and> api_chat_sync P ev fetch req =
              (\<lparr>status = 200, headers = [(''Content-Type'', ''application/json; charset=utf-8'')],
                headersSent = True,
                wire = [JsonBody (json_text (JStr (lit ''Simulated full response for '' @ label
                          @ lit '': '' @ take 800 (rev s)))), Close],
                finished = True\<rparr>, [])
          \<and> lit ''Simulated reply for model '' @ [0x22] @ label @ [0x22] @ lit '':'' @ [LF, LF]
                @ take 800 (rev s) \<noteq> []
          \<and> lit ''Simulated full response for '' @ label @ lit '': '' @ take 800 (rev s) \<noteq> []
          \<and> length (take 800 (rev s)) \<le> 800" if "p = JStr s" for s
    using assms that by (simp add: api_chat_def api_chat_sync_def res_defs reversed_prompt_def)
  have nostr: "api_chat P ev fetch req =
              (\<lparr>status = 500, headers = [(''Content-Type'', ''application/json; charset=utf-8'')],
                headersSent = True,
                wire = [JsonBody (json_error (not_function_error P ''prompt.split'')), Close],
                finished = True\<rparr>, [])
          \<and> api_chat_sync P ev fetch req =
              (\<lparr>status = 500, headers = [(''Content-Type'', ''application/json; charset=utf-8'')],
                headersSent = True,
                wire = [JsonBody (json_error (not_function_error P ''prompt.split'')), Close],
                finished = True\<rparr>, [])" if "\<forall>s. p \<noteq> JStr s"
    using assms that
    by (cases p) (simp_all add: api_chat_def api_chat_sync_def chat_catch_def res_defs)
  from lab str nostr show ?thesis by (intro conjI allI impI) blast+
qed

theorem unknown_model_placeholder_witness:
  "api_chat sample_platform no_keys_env sample_fetch
       \<lparr>model = Some (JStr (lit ''grok'')), prompt = Some (JStr (lit ''abc'')), temperature = None\<rparr> =
     (\<lparr>status = 200,
       headers = [(''Content-Type'', ''text/plain; charset=utf-8''), (''Cache-Control'', ''no-cache'')],
       headersSent = True,
       wire = [Fragment (lit ''Simulated reply for model '' @ [0x22] @ lit ''grok'' @ [0x22] @ lit '':''
                 @ [LF, LF] @ lit ''cba''), Close],
       finished = True\<rparr>, [])
   \<and> api_chat_sync sample_platform no_keys_env sample_fetch
       \<lparr>model = Some (JStr (lit ''grok'')), prompt = Some (JStr (lit ''abc'')), temperature = None\<rparr> =
     (\<lparr>status = 200, headers = [(''Content-Type'', ''application/json; charset=utf-8'')],
       headersSent = True,
       wire = [JsonBody (json_text (JStr (lit ''Simulated full response for grok: cba''))), Close],
       finished = True\<rparr>, [])
   \<and> api_chat sample_platform no_keys_env sample_fetch
       \<lparr>model = Some (JStr (lit ''grok'')), prompt = Some (JArr []), temperature = None\<rparr> =
     (\<lparr>status = 500, headers = [(''Content-Type'', ''application/json; charset=utf-8'')],
       headersSent = True,
       wire = [JsonBody (json_error (lit ''TypeError: prompt.split is not a function'')), Close],
       finished = True\<rparr>, [])"
proof -
  have t: "template_string sample_platform (JStr (lit ''grok'')) = Inr (lit ''grok'')"
    by (simp add: template_string_def)
  note w1 = unknown_model_placeholder [where P = sample_platform and ev = no_keys_env
      and fetch = sample_fetch and m = "JStr (lit ''grok'')" and label = "lit ''grok''"
      and p = "JStr (lit ''abc'')" and
      req = "\<lparr>model = Some (JStr (lit ''grok'')), prompt = Some (JStr (lit ''abc'')),
               temperature = None\<rparr>"]
  note w2 = unknown_model_placeholder [where P = sample_platform and ev = no_keys_env
      and fetch = sample_fetch and m = "JStr (lit ''grok'')" and label = "lit ''grok''"
      and p = "JArr []" and
      req = "\<lparr>model = Some (JStr (lit ''grok'')), prompt = Some (JArr []), temperature = None\<rparr>"]
  from w1 t have 1: "api_chat sample_platform no_keys_env sample_fetch
       \<lparr>model = Some (JStr (lit ''grok'')), prompt = Some (JStr (lit ''abc'')), temperature = None\<rparr> =
     (\<lparr>status = 200,
       headers = [(''Content-Type'', ''text/plain; charset=utf-8''), (''Cache-Control'', ''no-cache'')],
       headersSent = True,
       wire = [Fragment (lit ''Simulated reply for model '' @ [0x22] @ lit ''grok'' @ [0x22] @ lit '':''
                 @ [LF, LF] @ lit ''cba''), Close],
       finished = True\<rparr>, [])
   \<and> api_chat_sync sample_platform no_keys_env sample_fetch
       \<lparr>model = Some (JStr (lit ''grok'')), prompt = Some (JStr (lit ''abc'')), temperature = None\<rparr> =
     (\<lparr>status = 200, headers = [(''Content-Type'', ''application/json; charset=utf-8'')],
       headersSent = True,
       wire = [JsonBody (json_text (JStr (lit ''Simulated full response for grok: cba''))), Close],
       finished = True\<rparr>, [])"
    by (simp add: lit_def)
  from w2 t have 2: "api_chat sample_platform no_keys_env sample_fetch
       \<lparr>model = Some (JStr (lit ''grok'')), prompt = Some (JArr []), temperature = None\<rparr> =
     (\<lparr>status = 500, headers = [(''Content-Type'', ''application/json; charset=utf-8'')],
       headersSent = True,
       wire = [JsonBody (json_error (lit ''TypeError: prompt.split is not a function'')), Close],
       finished = True\<rparr>, [])"
    by (simp add: sample_platform_def lit_def)
  from 1 2 show ?thesis by simp
qed

text \<open>
  C7 as stated fails: for the model \<open>grok\<close> and the prompt \<open>123\<close>, a number, both
  endpoints answer with status 500 and an error body.
\<close>

theorem unknown_model_error_counterexample:
  "api_chat sample_platform sample_env sample_fetch
       \<lparr>model = Some (JStr (lit ''grok'')), prompt = Some (JNum 123), temperature = None\<rparr> =
     (\<lparr>status = 500, headers = [(''Content-Type'', ''application/json; charset=utf-8'')],
       headersSent = True,
       wire = [JsonBody (json_error (lit ''TypeError: prompt.split is not a function'')), Close],
       finished = True\<rparr>, [])
   \<and> api_chat_sync sample_platform sample_env sample_fetch
       \<lparr>model = Some (JStr (lit ''grok'')), prompt = Some (JNum 123), temperature = None\<rparr> =
     (\<lparr>status = 500, headers = [(''Content-Type'', ''application/json; charset=utf-8'')],
       headersSent = True,
       wire = [JsonBody (json_error (lit ''TypeError: prompt.split is not a function'')), Close],
       finished = True\<rparr>, [])"
  by (simp add: api_chat_def api_chat_sync_def template_string_def chat_catch_def res_defs
      sample_platform_def lit_def)

section \<open>The provider adapters\<close>

lemma lit_append: "lit a @ lit b = lit (a @ b)"
  by (simp add: lit_def)

lemma full_calls_temperature:
  "list_all (\<lambda>call. member ''temperature'' (req_body call) = Some (JNum 0.2))
     (snd (callOpenAICompletionFull P ev fetch p))"
proof (cases "OPENAI_API_KEY ev")
  case None
  then show ?thesis by (simp add: callOpenAICompletionFull_def)
next
  case (Some key)
  show ?thesis
  proof (cases "key = []")
    case True
    with Some show ?thesis by (simp add: callOpenAICompletionFull_def)
  next
    case False
    with Some show ?thesis
      by (simp add: callOpenAICompletionFull_def Let_def
          split: fetch_result.splits sum.splits option.splits)
  qed
qed

lemma google_calls_temperature:
  "list_all (\<lambda>call. member ''temperature'' (req_body call) = Some (temperature_or_default t))
     (snd (callGoogleGenerate P ev fetch p t))"
proof (cases "GOOGLE_API_KEY ev")
  case None
  then show ?thesis by (simp add: callGoogleGenerate_def)
next
  case (Some key)
  show ?thesis
  proof (cases "key = []")
    case True
    with Some show ?thesis by (simp add: callGoogleGenerate_def)
  next
    case False
    with Some show ?thesis
      by (simp add: callGoogleGenerate_def Let_def
          split: fetch_result.splits sum.splits option.splits)
  qed
qed

lemma sync_calls_cases:
  "snd (api_chat_sync P ev fetch req) = []
   \<or> (\<exists>p. snd (api_chat_sync P ev fetch req) = snd (callOpenAICompletionFull P ev fetch p))
   \<or> (\<exists>p. snd (api_chat_sync P ev fetch req) = snd (callGoogleGenerate P ev fetch p None))"
proof -
  consider (rej) "\<not> truthy (model req) \<or> \<not> truthy (prompt req)"
    | (ok) m p where "model req = Some m" "prompt req = Some p"
        "truthy (model req)" "truthy (prompt req)"
    by (cases "model req"; cases "prompt req") auto
  then show ?thesis
  proof cases
    case rej
    then show ?thesis by (simp add: api_chat_sync_def)
  next
    case ok
    consider (gpt) "m = JStr (lit ''chatgpt'')" | (goo) "m = JStr (lit ''googleai'')"
      | (other) "m \<noteq> JStr (lit ''chatgpt'')" "m \<noteq> JStr (lit ''googleai'')"
      by blast
    then show ?thesis
    proof cases
      case gpt
      with ok have "snd (api_chat_sync P ev fetch req) = snd (callOpenAICompletionFull P ev fetch p)"
        by (simp add: api_chat_sync_def split: prod.splits sum.splits)
      then show ?thesis by blast
    next
      case goo
      with ok have "snd (api_chat_sync P ev fetch req) = snd (callGoogleGenerate P ev fetch p None)"
        by (simp add: api_chat_sync_def split: prod.splits sum.splits)
      then show ?thesis by blast
    next
      case other
      with ok show ?thesis
        by (simp add: api_chat_sync_def split: sum.splits json.splits)
    qed
  qed
qed

lemmas sample_defs = sample_env_def sample_fetch_def sample_platform_def no_keys_env_def


text \<open>
  C10. Two requests to \<open>POST /api/chat-sync\<close> that differ in the temperature only
  get the same response through the same calls of the provider, and every call the
  endpoint makes carries the temperature 0.2.
\<close>

theorem chat_sync_ignores_temperature:
  "api_chat_sync P ev fetch (req\<lparr>temperature := t\<rparr>) = api_chat_sync P ev fetch req
   \<and> list_all (\<lambda>call. member ''temperature'' (req_body call) = Some (JNum 0.2))
        (snd (api_chat_sync P ev fetch req))"
proof
  show "api_chat_sync P ev fetch (req\<lparr>temperature := t\<rparr>) = api_chat_sync P ev fetch req"
    by (simp add: api_chat_sync_def)
  have g: "list_all (\<lambda>call. member ''temperature'' (req_body call) = Some (JNum 0.2))
     (snd (callGoogleGenerate P ev fetch p None))" for p
    using google_calls_temperature [of None P ev fetch p] by (simp add: temperature_or_default_def)
  from sync_calls_cases [of P ev fetch req]
  show "list_all (\<lambda>call. member ''temperature'' (req_body call) = Some (JNum 0.2))
        (snd (api_chat_sync P ev fetch req))"
    using full_calls_temperature g by (elim disjE exE) simp_all
qed

theorem chat_sync_ignores_temperature_witness:
  "api_chat_sync sample_platform sample_env sample_fetch
      \<lparr>model = Some (JStr (lit ''chatgpt'')), prompt = Some (JStr (lit ''Hi'')),
        temperature = Some (JNum 0.9)\<rparr>
   = api_chat_sync sample_platform sample_env sample_fetch
      \<lparr>model = Some (JStr (lit ''chatgpt'')), prompt = Some (JStr (lit ''Hi'')),
        temperature = None\<rparr>
   \<and> map (\<lambda>call. member ''temperature'' (req_body call))
        (snd (api_chat_sync sample_platform sample_env sample_fetch
           \<lparr>model = Some (JStr (lit ''chatgpt'')), prompt = Some (JStr (lit ''Hi'')),
        temperature = Some (JNum 0.9)\<rparr>))
      = [Some (JNum 0.2)]"
proof -
  have "snd (api_chat_sync sample_platform sample_env sample_fetch
           \<lparr>model = Some (JStr (lit ''chatgpt'')), prompt = Some (JStr (lit ''Hi'')),
        temperature = None\<rparr>) \<noteq> []"
    by (simp add: api_chat_sync_def callOpenAICompletionFull_def sample_defs Let_def
        openai_url_def message_value_def coalesce_def opt_member_def opt_index0_def)
  then show ?thesis
    using chat_sync_ignores_temperature [where P = sample_platform and ev = sample_env
      and fetch = sample_fetch and t = "Some (JNum 0.9)" and
      req = "\<lparr>model = Some (JStr (lit ''chatgpt'')), prompt = Some (JStr (lit ''Hi'')),
        temperature = None\<rparr>"]
    apply (cases "snd (api_chat_sync sample_platform sample_env sample_fetch
           \<lparr>model = Some (JStr (lit ''chatgpt'')), prompt = Some (JStr (lit ''Hi'')),
        temperature = None\<rparr>)")
     apply simp
    apply (simp add: api_chat_sync_def callOpenAICompletionFull_def sample_defs Let_def
        openai_url_def message_value_def coalesce_def opt_member_def opt_index0_def)
    done
qed


text \<open>
  C8. With the credential of the provider absent (or empty), the adapter makes no
  call of the provider: \<open>streamOpenAICompletion\<close> answers with status 500 and a
  plain-text message, \<open>callOpenAICompletionFull\<close> and \<open>callGoogleGenerate\<close> throw, and
  the endpoints turn that into a response with status 500.
\<close>

theorem missing_credential:
  assumes "prompt req = Some p" and "truthy (Some p)"
  shows "(falsy (OPENAI_API_KEY ev) \<longrightarrow>
            streamOpenAICompletion P ev fetch p t new_response =
              (None, \<lparr>status = 500, headers = [], headersSent = True,
                      wire = [Fragment (lit ''Missing OPENAI_API_KEY on server''), Close],
                      finished = True\<rparr>, [])
          \<and> callOpenAICompletionFull P ev fetch p = (Inl (Error (lit ''Missing OPENAI_API_KEY'')), [])
          \<and> (model req = Some (JStr (lit ''chatgpt'')) \<longrightarrow>
               api_chat P ev fetch req =
                 (\<lparr>status = 500, headers = [], headersSent = True,
                   wire = [Fragment (lit ''Missing OPENAI_API_KEY on server''), Close],
                   finished = True\<rparr>, [])
             \<and> api_chat_sync P ev fetch req =
                 (\<lparr>status = 500, headers = [(''Content-Type'', ''application/json; charset=utf-8'')],
                   headersSent = True,
                   wire = [JsonBody (json_error (lit ''Error: Missing OPENAI_API_KEY'')), Close],
                   finished = True\<rparr>, [])))
       \<and> (falsy (GOOGLE_API_KEY ev) \<longrightarrow>
            callGoogleGenerate P ev fetch p t = (Inl (Error (lit ''Missing GOOGLE_API_KEY'')), [])
          \<and> (model req = Some (JStr (lit ''googleai'')) \<longrightarrow>
               api_chat P ev fetch req =
                 (\<lparr>status = 500, headers = [(''Content-Type'', ''application/json; charset=utf-8'')],
                   headersSent = True,
                   wire = [JsonBody (json_error (lit ''Error: Missing GOOGLE_API_KEY'')), Close],
                   finished = True\<rparr>, [])
             \<and> api_chat_sync P ev fetch req =
                 (\<lparr>status = 500, headers = [(''Content-Type'', ''application/json; charset=utf-8'')],
                   headersSent = True,
                   wire = [JsonBody (json_error (lit ''Error: Missing GOOGLE_API_KEY'')), Close],
                   finished = True\<rparr>, [])))"
proof -
  have s: "falsy (OPENAI_API_KEY ev) \<Longrightarrow>
      streamOpenAICompletion P ev fetch p t' new_response =
              (None, \<lparr>status = 500, headers = [], headersSent = True,
                      wire = [Fragment (lit ''Missing OPENAI_API_KEY on server''), Close],
                      finished = True\<rparr>, [])" for t'
    by (cases "OPENAI_API_KEY ev") (simp_all add: streamOpenAICompletion_def res_defs)
  have f: "falsy (OPENAI_API_KEY ev) \<Longrightarrow>
      callOpenAICompletionFull P ev fetch p = (Inl (Error (lit ''Missing OPENAI_API_KEY'')), [])"
    by (cases "OPENAI_API_KEY ev") (simp_all add: callOpenAICompletionFull_def)
  have g: "falsy (GOOGLE_API_KEY ev) \<Longrightarrow>
      callGoogleGenerate P ev fetch p t' = (Inl (Error (lit ''Missing GOOGLE_API_KEY'')), [])" for t'
    by (cases "GOOGLE_API_KEY ev") (simp_all add: callGoogleGenerate_def)
  show ?thesis
    using assms s [of t] s [of "temperature req"] f g [of t] g [of None] g [of "temperature req"]
    by (auto simp: api_chat_def api_chat_sync_def chat_catch_def json_error_def res_defs lit_append)
qed

theorem missing_credential_witness:
  "api_chat sample_platform no_keys_env sample_fetch
      \<lparr>model = Some (JStr (lit ''chatgpt'')), prompt = Some (JStr (lit ''Hi'')),
        temperature = None\<rparr> =
     (\<lparr>status = 500, headers = [], headersSent = True,
       wire = [Fragment (lit ''Missing OPENAI_API_KEY on server''), Close],
       finished = True\<rparr>, [])
   \<and> api_chat_sync sample_platform no_keys_env sample_fetch
      \<lparr>model = Some (JStr (lit ''googleai'')), prompt = Some (JStr (lit ''Hi'')),
        temperature = None\<rparr> =
     (\<lparr>status = 500, headers = [(''Content-Type'', ''application/json; charset=utf-8'')],
       headersSent = True,
       wire = [JsonBody (json_error (lit ''Error: Missing GOOGLE_API_KEY'')), Close],
       finished = True\<rparr>, [])"
  using missing_credential [where ev = no_keys_env and P = sample_platform and fetch = sample_fetch
      and p = "JStr (lit ''Hi'')" and t = None and
      req = "\<lparr>model = Some (JStr (lit ''chatgpt'')), prompt = Some (JStr (lit ''Hi'')),
        temperature = None\<rparr>"]
    missing_credential [where ev = no_keys_env and P = sample_platform and fetch = sample_fetch
      and p = "JStr (lit ''Hi'')" and t = None and
      req = "\<lparr>model = Some (JStr (lit ''googleai'')), prompt = Some (JStr (lit ''Hi'')),
        temperature = None\<rparr>"]
  by (simp add: no_keys_env_def)



section \<open>One payload\<close>


lemma spec_delta_field_eq: "v \<noteq> JNull \<Longrightarrow> spec_delta_field v = delta_content v"
  by (simp add: spec_delta_field_def delta_content_def opt_member_def opt_index0_def
      split: option.splits)

lemma spec_message_field_eq: "v \<noteq> JNull \<Longrightarrow> spec_message_field v = message_content v"
  by (simp add: spec_message_field_def message_content_def opt_member_def opt_index0_def
      split: option.splits)

lemma spec_text_JNull: "spec_text JNull = None"
  by (simp add: spec_text_def spec_delta_field_def spec_message_field_def)

lemma spec_text_eq: "spec_text v = coalesce (delta_content v) (message_content v)"
proof (cases "v = JNull")
  case True
  then show ?thesis by (simp add: spec_text_JNull nullish_JNull_paths)
next
  case False
  then show ?thesis
    by (simp add: spec_text_def coalesce_def spec_delta_field_eq spec_message_field_eq)
qed

lemma spec_payload_fragment_text:
  "parse payload = Some v \<Longrightarrow>
   spec_payload_fragment parse payload =
     (case spec_text v of Some (JStr s) \<Rightarrow> if s = [] then None else Some s | _ \<Rightarrow> None)"
  by (simp add: spec_payload_fragment_def spec_text_eq)

lemmas str_defs = lit_def ascii_bytes_def LF_def CR_def data_frame_def delta_bytes_def
  delta_payload_def message_payload_def
lemmas line_defs = startsWith_def strip_data_def is_space_def
lemmas utf8_defs = utf8_byte_def utf8_handler_def utf8_lead_def utf8_start_def utf16_def utf8_clear_def
lemmas relay_defs = relay_def try_payload_def sample_parse_def delta_value_def message_value_def
  extract_text_def delta_content_def message_content_def coalesce_def opt_member_def opt_index0_def


text \<open>
  C5. For a data line whose payload is not the sentinel and parses, the relay takes
  the delta field \<open>choices[0].delta.content\<close> when it is present and the
  full-message field \<open>choices[0].message.content\<close> otherwise, and writes that value
  as one fragment exactly when it is a non-empty string; in every other case the
  response is left as it was.
\<close>

theorem payload_text_emitted:
  assumes "startsWith (lit ''data:'') line" and "strip_data line \<noteq> lit ''[DONE]''"
    and "parse (strip_data line) = Some v" and "\<not> finished res"
  shows "process_lines parse [line] res =
           Continue (case spec_text v of
                       Some (JStr s) \<Rightarrow>
                         if s = [] then res
                         else res\<lparr>headersSent := True, wire := wire res @ [Fragment s]\<rparr>
                     | _ \<Rightarrow> res)
       \<and> wire (final (process_lines parse [line] res)) =
           wire res @ (case spec_text v of
                         Some (JStr s) \<Rightarrow> if s = [] then [] else [Fragment s]
                       | _ \<Rightarrow> [])"
  using assms
  by (simp add: try_payload_spec spec_payload_fragment_text res_write_def
      split: option.splits json.splits)

theorem payload_text_emitted_witness:
  "process_lines sample_parse [lit ''data: '' @ delta_payload (lit ''Hel'')] new_response =
     Continue (new_response\<lparr>headersSent := True, wire := [Fragment (lit ''Hel'')]\<rparr>)
   \<and> process_lines sample_parse [lit ''data: '' @ message_payload (lit ''Hi'')] new_response =
     Continue (new_response\<lparr>headersSent := True, wire := [Fragment (lit ''Hi'')]\<rparr>)
   \<and> process_lines sample_parse [lit ''data: '' @ delta_payload []] new_response =
     Continue new_response
   \<and> process_lines sample_parse [lit ''data: 7''] new_response = Continue new_response"
proof -
  have 1: "startsWith (lit ''data:'') (lit ''data: '' @ delta_payload (lit ''Hel''))"
    "strip_data (lit ''data: '' @ delta_payload (lit ''Hel'')) \<noteq> lit ''[DONE]''"
    "sample_parse (strip_data (lit ''data: '' @ delta_payload (lit ''Hel''))) = Some (delta_value (lit ''Hel''))"
    by (simp_all add: str_defs line_defs sample_parse_def)
  have 2: "startsWith (lit ''data:'') (lit ''data: '' @ message_payload (lit ''Hi''))"
    "strip_data (lit ''data: '' @ message_payload (lit ''Hi'')) \<noteq> lit ''[DONE]''"
    "sample_parse (strip_data (lit ''data: '' @ message_payload (lit ''Hi''))) = Some (message_value (lit ''Hi''))"
    by (simp_all add: str_defs line_defs sample_parse_def)
  have 3: "startsWith (lit ''data:'') (lit ''data: '' @ delta_payload [])"
    "strip_data (lit ''data: '' @ delta_payload []) \<noteq> lit ''[DONE]''"
    "sample_parse (strip_data (lit ''data: '' @ delta_payload [])) = Some (delta_value [])"
    by (simp_all add: str_defs line_defs sample_parse_def)
  have 4: "startsWith (lit ''data:'') (lit ''data: 7'')"
    "strip_data (lit ''data: 7'') \<noteq> lit ''[DONE]''"
    "sample_parse (strip_data (lit ''data: 7'')) = Some (JNum 7)"
    by (simp_all add: str_defs line_defs sample_parse_def)
  have n: "\<not> finished new_response" by (simp add: new_response_def)
  have t1: "spec_text (delta_value (lit ''Hel'')) = Some (JStr (lit ''Hel''))"
    and t2: "spec_text (message_value (lit ''Hi'')) = Some (JStr (lit ''Hi''))"
    and t3: "spec_text (delta_value []) = Some (JStr [])"
    and t4: "spec_text (JNum 7) = None"
    by (simp_all add: spec_text_def spec_delta_field_def spec_message_field_def
        delta_value_def message_value_def)
  show ?thesis
    using payload_text_emitted [where parse = sample_parse, OF 1 n]
      payload_text_emitted [where parse = sample_parse, OF 2 n]
      payload_text_emitted [where parse = sample_parse, OF 3 n]
      payload_text_emitted [where parse = sample_parse, OF 4 n]
    by (simp add: t1 t2 t3 t4 new_response_def)
qed






section \<open>The relay as a whole\<close>

lemma write_all_closed:
  "\<not> finished res \<Longrightarrow>
   write_all fs res =
     (if fs = [] then res else res\<lparr>headersSent := True, wire := wire res @ map Fragment fs\<rparr>)"
proof (induction fs arbitrary: res)
  case Nil
  then show ?case by simp
next
  case (Cons f fs)
  have "\<not> finished (res_write f res)" using Cons.prems by simp
  from Cons.IH [OF this] Cons.prems show ?case
    by (simp add: res_write_def)
qed

lemma res_end_write_all:
  "\<not> finished res \<Longrightarrow>
   res_end (write_all fs res) =
     res\<lparr>headersSent := True, wire := wire res @ map Fragment fs @ [Close], finished := True\<rparr>"
  by (simp add: write_all_closed res_end_def)

lemma final_process_parts:
  "res_end (final (process_parts parse ps res)) =
     res_end (write_all (fst (spec_frames_fragments parse ps)) res)"
  by (simp add: process_parts_spec split: prod.splits)

lemma relay_response:
  "snd (snd (relay P reads e res)) =
     res_end (final (process_parts (json_parse P)
       (butlast (split_frames (snd (decode_stream P (dec_init P) (concat reads))))) res))"
proof -
  have "split_frames [] = [[]]" by simp
  from read_loop_response [OF this, of P "dec_init P" 0 reads e res]
  show ?thesis by (cases "read_loop P (dec_init P) [] 0 reads e res") (simp add: relay_def)
qed

lemma relay_wire:
  "\<not> finished res \<Longrightarrow>
   snd (snd (relay P reads e res)) =
     res\<lparr>headersSent := True,
         wire := wire res @ map Fragment (fst (spec_stream_fragments P (concat reads))) @ [Close],
         finished := True\<rparr>"
  by (simp add: relay_response final_process_parts res_end_write_all spec_stream_fragments_def)

lemma relay_finished: "finished (snd (snd (relay P reads e res)))"
  by (simp add: relay_def split: prod.splits)

lemma read_loop_exit:
  "split_frames buf = [buf] \<Longrightarrow>
   (fst (read_loop P d buf n reads e res) = SawSentinel) =
     (\<exists>r. process_parts (json_parse P)
        (butlast (split_frames (buf @ snd (decode_stream P d (concat reads))))) res = Return r)"
proof (induction reads arbitrary: d buf n res)
  case Nil
  then show ?case by (simp split: read_end.splits)
next
  case (Cons v rest)
  obtain d1 s where ds: "decode_stream P d v = (d1, s)" by (cases "decode_stream P d v")
  obtain d2 s2 where ds2: "decode_stream P d1 (concat rest) = (d2, s2)"
    by (cases "decode_stream P d1 (concat rest)")
  let ?parts = "split_frames (buf @ s)"
  have whole: "split_frames (buf @ snd (decode_stream P d (v @ concat rest)))
      = butlast ?parts @ split_frames (last ?parts @ s2)"
    using split_frames_append [of "buf @ s" s2] by (simp add: decode_stream_append ds ds2)
  have bl: "butlast (butlast ?parts @ split_frames (last ?parts @ s2))
      = butlast ?parts @ butlast (split_frames (last ?parts @ s2))"
    by (simp add: butlast_append)
  show ?case
  proof (cases "process_parts (json_parse P) (butlast ?parts) res")
    case (Return r)
    then show ?thesis
      by (simp add: ds whole bl process_parts_append)
  next
    case (Continue r)
    have "(fst (read_loop P d1 (last ?parts) (Suc n) rest e r) = SawSentinel) =
       (\<exists>r'. process_parts (json_parse P)
         (butlast (split_frames (last ?parts @ snd (decode_stream P d1 (concat rest))))) r = Return r')"
      by (rule Cons.IH) (rule split_frames_last)
    with Continue show ?thesis
      by (simp add: ds ds2 whole bl process_parts_append)
  qed
qed

lemma read_loop_prefix:
  "fst (read_loop P d buf n reads e0 res) = SawSentinel \<Longrightarrow>
   read_loop P d buf n (reads @ rest) e res = read_loop P d buf n reads e0 res"
proof (induction reads arbitrary: d buf n res)
  case Nil
  then show ?case by (simp split: read_end.splits)
next
  case (Cons v reads)
  then show ?case
    by (auto split: prod.splits step.splits)
qed

lemma read_loop_count:
  "fst (read_loop P d buf n reads e res) = SawSentinel \<Longrightarrow>
   fst (snd (read_loop P d buf n reads e res)) \<le> n + length reads"
proof (induction reads arbitrary: d buf n res)
  case Nil
  then show ?case by (simp split: read_end.splits)
next
  case (Cons v reads)
  obtain d1 s where ds: "decode_stream P d v = (d1, s)" by (cases "decode_stream P d v")
  show ?case
  proof (cases "process_parts (json_parse P) (butlast (split_frames (buf @ s))) res")
    case (Return r)
    then show ?thesis by (simp add: ds)
  next
    case (Continue r)
    with Cons.prems ds
    have "fst (read_loop P d1 (last (split_frames (buf @ s))) (Suc n) reads e r) = SawSentinel"
      by simp
    from Cons.IH [OF this] Continue ds show ?thesis by simp
  qed
qed

lemma spec_lines_sentinel:
  "snd (spec_lines_fragments parse ls) =
     (\<exists>l \<in> set ls. startsWith (lit ''data:'') l \<and> strip_data l = lit ''[DONE]'')"
  by (induction ls) (auto split: prod.splits option.splits)

lemma spec_frames_sentinel:
  "snd (spec_frames_fragments parse fs) =
     (\<exists>f \<in> set fs. \<exists>l \<in> set (split_lines f).
         startsWith (lit ''data:'') l \<and> strip_data l = lit ''[DONE]'')"
proof (induction fs)
  case Nil
  then show ?case by simp
next
  case (Cons f fs)
  obtain a b where ab: "spec_lines_fragments parse (split_lines f) = (a, b)"
    by (cases "spec_lines_fragments parse (split_lines f)")
  then have b: "b = (\<exists>l \<in> set (split_lines f). startsWith (lit ''data:'') l \<and> strip_data l = lit ''[DONE]'')"
    using spec_lines_sentinel [of parse "split_lines f"] by simp
  show ?case
  proof (cases b)
    case True
    with ab b show ?thesis by auto
  next
    case False
    with ab b Cons.IH show ?thesis by (auto split: prod.splits)
  qed
qed

lemma process_parts_return:
  "(\<exists>r. process_parts parse ps res = Return r) = snd (spec_frames_fragments parse ps)"
  by (simp add: process_parts_spec split: prod.splits)

lemma count_list_fragments: "count_list (map Fragment fs) Close = 0"
  by (induction fs) auto

lemma spec_lines_upto:
  "\<forall>k \<in> set ls1. \<not> sentinel_line k \<Longrightarrow> sentinel_line l \<Longrightarrow>
   spec_lines_fragments parse (ls1 @ l # ls2) = (spec_plain_fragments parse ls1, True)"
  by (induction ls1)
     (auto simp: sentinel_line_def spec_line_fragment_def split: prod.splits option.splits)

lemma spec_frames_upto:
  "\<forall>g \<in> set fs1. \<forall>k \<in> set (split_lines g). \<not> sentinel_line k \<Longrightarrow>
   spec_lines_fragments parse (split_lines f) = (x, True) \<Longrightarrow>
   spec_frames_fragments parse (fs1 @ f # fs2) =
     (concat (map (\<lambda>g. spec_plain_fragments parse (split_lines g)) fs1) @ x, True)"
proof (induction fs1)
  case Nil
  then show ?case by simp
next
  case (Cons g fs1)
  have "\<not> snd (spec_lines_fragments parse (split_lines g))"
    using Cons.prems(1) by (simp add: spec_lines_sentinel sentinel_line_def)
  moreover have "fst (spec_lines_fragments parse (split_lines g)) =
      spec_plain_fragments parse (split_lines g)"
  proof -
    have "\<forall>k \<in> set ls. \<not> sentinel_line k \<Longrightarrow>
        fst (spec_lines_fragments parse ls) = spec_plain_fragments parse ls" for ls
      by (induction ls)
         (auto simp: sentinel_line_def spec_line_fragment_def split: prod.splits option.splits)
    then show ?thesis using Cons.prems(1) by simp
  qed
  ultimately have g: "spec_lines_fragments parse (split_lines g) =
      (spec_plain_fragments parse (split_lines g), False)"
    by (cases "spec_lines_fragments parse (split_lines g)") simp
  from Cons.IH Cons.prems show ?case by (simp add: g)
qed


text \<open>
  The example of the specification: the frames \<open>Hel\<close>, \<open>lo\<close> and the sentinel, one
  per read.
\<close>

lemma relay_example:
  "relay sample_platform sample_reads Done new_response =
     (SawSentinel, 3, \<lparr>status = 200, headers = [], headersSent = True,
        wire = [Fragment (lit ''Hel''), Fragment (lit ''lo''), Close], finished = True\<rparr>)"
  by (simp add: sample_reads_def str_defs utf8_defs relay_defs line_defs sample_platform_def
      res_write_def res_end_def new_response_def)

text \<open>
  C2. The loop appends what each read decodes to the buffer, processes every segment
  of the buffer that is followed by the delimiter \<open>\n\n\<close> and keeps the rest; so the
  response is the one obtained from the complete frames of the whole decoded
  stream, and two sequences of reads with the same bytes, cut anywhere, give the
  same response.
\<close>

theorem relay_chunking_independent:
  assumes "concat reads1 = concat reads2"
  shows "snd (snd (relay P reads1 e1 res)) = snd (snd (relay P reads2 e2 res))
       \<and> snd (snd (relay P reads1 e1 res)) =
           res_end (final (process_parts (json_parse P)
             (butlast (split_frames (snd (decode_stream P (dec_init P) (concat reads1))))) res))"
  using assms by (simp add: relay_response)

theorem relay_chunking_independent_witness:
  "concat split_reads = concat whole_read
   \<and> snd (snd (relay sample_platform split_reads Done new_response))
       = snd (snd (relay sample_platform whole_read Done new_response))
   \<and> snd (snd (relay sample_platform whole_read Done new_response))
       = \<lparr>status = 200, headers = [], headersSent = True,
          wire = [Fragment [0xE9], Fragment (lit ''lo''), Close], finished = True\<rparr>"
proof -
  have c: "concat split_reads = concat whole_read"
    by (simp add: split_reads_def whole_read_def str_defs)
  have v: "snd (snd (relay sample_platform whole_read Done new_response))
       = \<lparr>status = 200, headers = [], headersSent = True,
          wire = [Fragment [0xE9], Fragment (lit ''lo''), Close], finished = True\<rparr>"
    by (simp add: whole_read_def str_defs utf8_defs relay_defs line_defs sample_platform_def
        res_write_def res_end_def new_response_def)
  from relay_chunking_independent [OF c, of sample_platform Done new_response Done] c v
  show ?thesis by simp
qed


text \<open>
  C3. When a complete frame of the stream has a data line whose payload is the
  sentinel \<open>[DONE]\<close>, the loop is left at the sentinel, with no read beyond those that
  delivered it; reads that would follow, and bytes that follow in the same or in
  later reads, change nothing in the response; and the response is ended once. At
  the first sentinel line, what has been written is the fragments of the frames
  before its frame and of the lines before it in its frame, then the end: the
  lines after it in its frame and the frames after give nothing.
\<close>

theorem sentinel_stops_relay:
  assumes "f \<in> set (butlast (split_frames (snd (decode_stream P (dec_init P) (concat reads)))))"
    and "l \<in> set (split_lines f)"
    and "startsWith (lit ''data:'') l" and "strip_data l = lit ''[DONE]''"
  shows "fst (relay P reads e res) = SawSentinel
       \<and> fst (snd (relay P reads e res)) \<le> length reads
       \<and> relay P (reads @ rest) e' res = relay P reads e res
       \<and> (concat reads' = concat reads @ extra \<longrightarrow>
            snd (snd (relay P reads' e' res)) = snd (snd (relay P reads e res)))
       \<and> (\<not> finished res \<longrightarrow>
            count_list (wire (snd (snd (relay P reads e res)))) Close = Suc (count_list (wire res) Close)
          \<and> last (wire (snd (snd (relay P reads e res)))) = Close)
       \<and> (\<not> finished res
            \<and> butlast (split_frames (snd (decode_stream P (dec_init P) (concat reads))))
                = frames_before @ f # frames_after
            \<and> split_lines f = lines_before @ l # lines_after
            \<and> (\<forall>g \<in> set frames_before. \<forall>k \<in> set (split_lines g). \<not> sentinel_line k)
            \<and> (\<forall>k \<in> set lines_before. \<not> sentinel_line k) \<longrightarrow>
            wire (snd (snd (relay P reads e res))) =
              wire res
              @ map Fragment
                  (concat (map (\<lambda>g. spec_plain_fragments (json_parse P) (split_lines g)) frames_before)
                   @ spec_plain_fragments (json_parse P) lines_before)
              @ [Close])"
proof -
  let ?T = "snd (decode_stream P (dec_init P) (concat reads))"
  have "snd (spec_frames_fragments (json_parse P) (butlast (split_frames ?T)))"
    using assms by (auto simp: spec_frames_sentinel)
  then obtain r where r: "process_parts (json_parse P) (butlast (split_frames ?T)) res = Return r"
    using process_parts_return [of "json_parse P" "butlast (split_frames ?T)" res] by blast
  have nil: "split_frames [] = [[]]" by simp
  have exit: "fst (read_loop P (dec_init P) [] 0 reads e0 res) = SawSentinel" for e0
    using read_loop_exit [OF nil, of P "dec_init P" 0 reads e0 res] r by simp
  have 1: "fst (relay P reads e res) = SawSentinel"
    using exit [of e] by (cases "read_loop P (dec_init P) [] 0 reads e res") (simp add: relay_def)
  have 2: "fst (snd (relay P reads e res)) \<le> length reads"
    using read_loop_count [OF exit [of e]]
    by (cases "read_loop P (dec_init P) [] 0 reads e res") (simp add: relay_def)
  have 3: "relay P (reads @ rest) e' res = relay P reads e res"
    using read_loop_prefix [OF exit [of e], of rest e'] by (simp add: relay_def)
  have 4: "snd (snd (relay P reads' e' res)) = snd (snd (relay P reads e res))"
    if eq: "concat reads' = concat reads @ extra"
  proof -
    obtain d1 s1 where d1: "decode_stream P (dec_init P) (concat reads) = (d1, s1)"
      by (cases "decode_stream P (dec_init P) (concat reads)")
    obtain d2 s2 where d2: "decode_stream P d1 extra = (d2, s2)"
      by (cases "decode_stream P d1 extra")
    have T: "?T = s1" using d1 by simp
    have "snd (decode_stream P (dec_init P) (concat reads')) = s1 @ s2"
      by (simp add: eq decode_stream_append d1 d2)
    moreover have "butlast (split_frames (s1 @ s2)) =
        butlast (split_frames s1) @ butlast (split_frames (last (split_frames s1) @ s2))"
      using split_frames_append [of s1 s2] by (simp add: butlast_append)
    ultimately have "process_parts (json_parse P)
        (butlast (split_frames (snd (decode_stream P (dec_init P) (concat reads'))))) res = Return r"
      using r T by (simp add: process_parts_append)
    then show ?thesis using r by (simp add: relay_response)
  qed
  have 5: "count_list (wire (snd (snd (relay P reads e res)))) Close = Suc (count_list (wire res) Close)
          \<and> last (wire (snd (snd (relay P reads e res)))) = Close" if "\<not> finished res"
    using that by (simp add: relay_wire count_list_fragments)
  have 6: "wire (snd (snd (relay P reads e res))) =
              wire res
              @ map Fragment
                  (concat (map (\<lambda>g. spec_plain_fragments (json_parse P) (split_lines g)) frames_before)
                   @ spec_plain_fragments (json_parse P) lines_before)
              @ [Close]"
    if open_res: "\<not> finished res"
      and fr: "butlast (split_frames ?T) = frames_before @ f # frames_after"
      and ln: "split_lines f = lines_before @ l # lines_after"
      and nf: "\<forall>g \<in> set frames_before. \<forall>k \<in> set (split_lines g). \<not> sentinel_line k"
      and nl: "\<forall>k \<in> set lines_before. \<not> sentinel_line k"
  proof -
    have sl: "sentinel_line l" using assms by (simp add: sentinel_line_def)
    have "spec_lines_fragments (json_parse P) (split_lines f) =
        (spec_plain_fragments (json_parse P) lines_before, True)"
      unfolding ln by (rule spec_lines_upto [OF nl sl])
    from spec_frames_upto [OF nf this, of frames_after]
    have "fst (spec_stream_fragments P (concat reads)) =
        concat (map (\<lambda>g. spec_plain_fragments (json_parse P) (split_lines g)) frames_before)
          @ spec_plain_fragments (json_parse P) lines_before"
      by (simp add: spec_stream_fragments_def fr)
    then show ?thesis using open_res by (simp add: relay_wire)
  qed
  have w6: "\<not> finished res
            \<and> butlast (split_frames ?T) = frames_before @ f # frames_after
            \<and> split_lines f = lines_before @ l # lines_after
            \<and> (\<forall>g \<in> set frames_before. \<forall>k \<in> set (split_lines g). \<not> sentinel_line k)
            \<and> (\<forall>k \<in> set lines_before. \<not> sentinel_line k) \<longrightarrow>
            wire (snd (snd (relay P reads e res))) =
              wire res
              @ map Fragment
                  (concat (map (\<lambda>g. spec_plain_fragments (json_parse P) (split_lines g)) frames_before)
                   @ spec_plain_fragments (json_parse P) lines_before)
              @ [Close]"
    by (intro impI, elim conjE) (rule 6)
  have w4: "concat reads' = concat reads @ extra \<longrightarrow>
            snd (snd (relay P reads' e' res)) = snd (snd (relay P reads e res))"
    by (intro impI) (rule 4)
  have w5: "\<not> finished res \<longrightarrow>
            count_list (wire (snd (snd (relay P reads e res)))) Close = Suc (count_list (wire res) Close)
          \<and> last (wire (snd (snd (relay P reads e res)))) = Close"
    by (intro impI) (rule 5)
  show ?thesis by (intro conjI) (rule 1, rule 2, rule 3, rule w4, rule w5, rule w6)
qed

theorem sentinel_stops_relay_witness:
  "relay sample_platform (sentinel_reads @ [data_frame (delta_bytes (ascii_bytes ''lo''))]) ReadError new_response
     = relay sample_platform sentinel_reads Done new_response
   \<and> relay sample_platform sentinel_reads Done new_response
     = (SawSentinel, 2, \<lparr>status = 200, headers = [], headersSent = True,
          wire = [Fragment (lit ''Hel''), Fragment (lit ''lo''), Close], finished = True\<rparr>)
   \<and> wire (snd (snd (relay sample_platform sentinel_reads Done new_response)))
     = map Fragment
         (concat (map (\<lambda>g. spec_plain_fragments sample_parse (split_lines g))
                    [lit ''data: '' @ delta_payload (lit ''Hel'')])
          @ spec_plain_fragments sample_parse [lit ''data: '' @ delta_payload (lit ''lo'')])
       @ [Close]"
proof -
  let ?F1 = "lit ''data: '' @ delta_payload (lit ''Hel'')"
  let ?L1 = "lit ''data: '' @ delta_payload (lit ''lo'')"
  let ?L2 = "lit ''data: [DONE]''"
  let ?L3 = "lit ''data: '' @ delta_payload (lit ''Hel'')"
  let ?F2 = "?L1 @ [LF] @ ?L2 @ [LF] @ ?L3"
  let ?F3 = "lit ''data: '' @ delta_payload (lit ''lo'')"
  have d: "snd (decode_stream sample_platform (dec_init sample_platform) (concat sentinel_reads))
      = ?F1 @ [LF, LF] @ ?F2 @ [LF, LF] @ ?F3 @ [LF, LF]"
    by (simp add: sentinel_reads_def str_defs utf8_defs sample_platform_def)
  have fr: "butlast (split_frames
      (snd (decode_stream sample_platform (dec_init sample_platform) (concat sentinel_reads))))
      = [?F1] @ ?F2 # [?F3]"
    unfolding d by (simp add: str_defs)
  have ln: "split_lines ?F2 = [?L1] @ ?L2 # [?L3]"
    by (simp add: str_defs)
  have m: "?F2 \<in> set (butlast (split_frames
      (snd (decode_stream sample_platform (dec_init sample_platform) (concat sentinel_reads)))))"
    unfolding fr by simp
  have l: "?L2 \<in> set (split_lines ?F2)"
    unfolding ln by simp
  have s: "startsWith (lit ''data:'') ?L2" "strip_data ?L2 = lit ''[DONE]''"
    by (simp_all add: str_defs line_defs)
  have nf: "\<forall>g \<in> set [?F1]. \<forall>k \<in> set (split_lines g). \<not> sentinel_line k"
    by (simp add: sentinel_line_def str_defs line_defs)
  have nl: "\<forall>k \<in> set [?L1]. \<not> sentinel_line k"
    by (simp add: sentinel_line_def str_defs line_defs)
  have n: "\<not> finished new_response" "wire new_response = []"
    by (simp_all add: new_response_def)
  have jp: "json_parse sample_platform = sample_parse"
    by (simp add: sample_platform_def)
  have v: "relay sample_platform sentinel_reads Done new_response
     = (SawSentinel, 2, \<lparr>status = 200, headers = [], headersSent = True,
          wire = [Fragment (lit ''Hel''), Fragment (lit ''lo''), Close], finished = True\<rparr>)"
    by (simp add: sentinel_reads_def str_defs utf8_defs relay_defs line_defs sample_platform_def
        res_write_def res_end_def new_response_def)
  note w = sentinel_stops_relay [where P = sample_platform and reads = sentinel_reads
      and f = ?F2 and l = ?L2 and e = Done and res = new_response
      and rest = "[data_frame (delta_bytes (ascii_bytes ''lo''))]" and e' = ReadError
      and frames_before = "[?F1]" and frames_after = "[?F3]"
      and lines_before = "[?L1]" and lines_after = "[?L3]", OF m l s]
  from w n fr ln nf nl have "relay sample_platform
        (sentinel_reads @ [data_frame (delta_bytes (ascii_bytes ''lo''))]) ReadError new_response
     = relay sample_platform sentinel_reads Done new_response
   \<and> wire (snd (snd (relay sample_platform sentinel_reads Done new_response))) =
       wire new_response
       @ map Fragment
           (concat (map (\<lambda>g. spec_plain_fragments (json_parse sample_platform) (split_lines g)) [?F1])
            @ spec_plain_fragments (json_parse sample_platform) [?L1])
       @ [Close]"
    by blast
  then have "relay sample_platform
        (sentinel_reads @ [data_frame (delta_bytes (ascii_bytes ''lo''))]) ReadError new_response
     = relay sample_platform sentinel_reads Done new_response
   \<and> wire (snd (snd (relay sample_platform sentinel_reads Done new_response))) =
       map Fragment
           (concat (map (\<lambda>g. spec_plain_fragments sample_parse (split_lines g)) [?F1])
            @ spec_plain_fragments sample_parse [?L1])
       @ [Close]"
    by (simp only: jp n append_Nil)
  with v show ?thesis by (simp only: simp_thms)
qed


section \<open>Every response is ended\<close>

lemma res_json_finished [simp]: "finished (res_json v res)"
  by (simp add: res_json_def)

lemma chat_catch_finished [simp]: "finished (chat_catch err res)"
  by (simp add: chat_catch_def)

lemma stream_adapter_finished:
  "streamOpenAICompletion P ev fetch p t res = (None, r, calls) \<Longrightarrow> finished r"
  by (auto simp: streamOpenAICompletion_def Let_def res_end_with_def relay_finished
      split: option.splits if_splits fetch_result.splits prod.splits)

lemma api_chat_finished: "finished (fst (api_chat P ev fetch req))"
proof (cases "\<not> truthy (model req) \<or> \<not> truthy (prompt req)")
  case True
  then show ?thesis by (simp add: api_chat_def)
next
  case False
  then obtain m p where mp: "model req = Some m" "prompt req = Some p"
    by (cases "model req"; cases "prompt req") auto
  consider (gpt) "m = JStr (lit ''chatgpt'')"
    | (goo) "m \<noteq> JStr (lit ''chatgpt'')" "m = JStr (lit ''googleai'')"
    | (other) "m \<noteq> JStr (lit ''chatgpt'')" "m \<noteq> JStr (lit ''googleai'')"
    by blast
  then show ?thesis
  proof cases
    case gpt
    obtain th r calls where s: "streamOpenAICompletion P ev fetch p (temperature req) new_response = (th, r, calls)"
      by (cases "streamOpenAICompletion P ev fetch p (temperature req) new_response")
    show ?thesis
    proof (cases th)
      case None
      with s have "finished r" using stream_adapter_finished by blast
      with False mp gpt s None show ?thesis by (simp add: api_chat_def)
    next
      case (Some err)
      with False mp gpt s show ?thesis by (simp add: api_chat_def)
    qed
  next
    case goo
    obtain out calls where g: "callGoogleGenerate P ev fetch p (temperature req) = (out, calls)"
      by (cases "callGoogleGenerate P ev fetch p (temperature req)")
    with False mp goo show ?thesis
      by (simp add: api_chat_def Let_def split: sum.splits json.splits)
  next
    case other
    with False mp show ?thesis
      by (simp add: api_chat_def split: sum.splits json.splits)
  qed
qed


text \<open>
  C9. After the relay the response is finished, however the loop was left (the
  sentinel, the end of the provider's stream, or a read that fails); on a response
  that was open, what has been written is the fragments of the stream in the order
  of extraction, each once, and then the end. Every response of \<open>POST /api/chat\<close> is
  finished.
\<close>

theorem stream_always_closed:
  "finished (snd (snd (relay P reads e res)))
   \<and> (\<not> finished res \<longrightarrow>
        wire (snd (snd (relay P reads e res))) =
          wire res @ map Fragment (fst (spec_stream_fragments P (concat reads))) @ [Close])
   \<and> finished (fst (api_chat P ev fetch req))"
  by (simp add: relay_finished relay_wire api_chat_finished)

theorem stream_always_closed_witness:
  "\<not> finished new_response
   \<and> relay sample_platform broken_reads ReadError new_response =
       (ReadFailed, 2, \<lparr>status = 200, headers = [], headersSent = True,
          wire = [Fragment (lit ''Hel''), Close], finished = True\<rparr>)
   \<and> map Fragment (fst (spec_stream_fragments sample_platform (concat broken_reads)))
       = [Fragment (lit ''Hel'')]"
proof -
  have v: "relay sample_platform broken_reads ReadError new_response =
       (ReadFailed, 2, \<lparr>status = 200, headers = [], headersSent = True,
          wire = [Fragment (lit ''Hel''), Close], finished = True\<rparr>)"
    by (simp add: broken_reads_def str_defs utf8_defs relay_defs line_defs sample_platform_def
        res_write_def res_end_def new_response_def)
  have n: "\<not> finished new_response" by (simp add: new_response_def)
  from stream_always_closed [of sample_platform broken_reads ReadError new_response
      sample_env sample_fetch "\<lparr>model = None, prompt = None, temperature = None\<rparr>"] v n
  show ?thesis by (simp add: new_response_def)
qed


section \<open>Streaming against the full response\<close>

lemma streamed_text_fragments: "streamed_text (map Fragment fs @ [Close]) = concat fs"
  by (induction fs) auto

lemma google_sync_text:
  assumes "model req = Some (JStr (lit ''googleai''))" and "prompt req = Some p"
    and "truthy (Some p)"
    and "response_text (wire (fst (api_chat_sync P ev fetch req))) = Some (JStr s)"
  shows "\<exists>calls. callGoogleGenerate P ev fetch p None = (Inr (JStr s), calls)"
proof -
  obtain out calls where g: "callGoogleGenerate P ev fetch p None = (out, calls)"
    by (cases "callGoogleGenerate P ev fetch p None")
  show ?thesis
  proof (cases out)
    case (Inl err)
    with assms g show ?thesis
      by (simp add: api_chat_sync_def response_text_def res_defs json_error_def)
  next
    case (Inr tx)
    with assms g show ?thesis
      by (simp add: api_chat_sync_def response_text_def res_defs json_text_def)
  qed
qed

lemma chatgpt_stream_response:
  assumes "model req = Some (JStr (lit ''chatgpt''))" and "prompt req = Some p"
    and "truthy (Some p)"
    and "snd (api_chat P ev fetch req) = [call]"
    and "fetch call = FetchResolves resp" and "ok resp" and "body_stream resp = Some (reads, e)"
  shows "fst (api_chat P ev fetch req) =
           snd (snd (relay P reads e
             (res_setHeader ''Connection'' ''keep-alive''
                (res_setHeader ''Cache-Control'' ''no-cache''
                   (res_setHeader ''Content-Type'' ''text/plain; charset=utf-8'' new_response)))))"
proof (cases "OPENAI_API_KEY ev")
  case None
  with assms show ?thesis by (simp add: api_chat_def streamOpenAICompletion_def)
next
  case (Some key)
  show ?thesis
  proof (cases "key = []")
    case True
    with Some assms show ?thesis by (simp add: api_chat_def streamOpenAICompletion_def)
  next
    case False
    define call0 where "call0 =
      \<lparr>url = openai_url, http_method = ''POST'', req_headers = openai_headers key,
       req_body = JObj
         [(lit ''model'', JStr (or_default (OPENAI_MODEL ev) (lit ''gpt-4o-mini''))),
          (lit ''messages'', user_messages p),
          (lit ''temperature'', temperature_or_default (temperature req)),
          (lit ''stream'', JBool True),
          (lit ''max_tokens'', JNum 800)]\<rparr>"
    have unfold: "streamOpenAICompletion P ev fetch p (temperature req) new_response =
      (case fetch call0 of
         FetchRejects err \<Rightarrow> (Some err, new_response, [call0])
       | FetchResolves resp \<Rightarrow>
           (case (if ok resp then body_stream resp else None) of
              None \<Rightarrow>
                (None,
                 res_end_with (lit ''OpenAI error:'' @ [LF] @ text_or_no_body resp)
                   (res_setHeader ''Content-Type'' ''text/plain''
                      (res_status (http_status resp) new_response)),
                 [call0])
            | Some (reads, e) \<Rightarrow>
                (None,
                 snd (snd (relay P reads e
                   (res_setHeader ''Connection'' ''keep-alive''
                      (res_setHeader ''Cache-Control'' ''no-cache''
                         (res_setHeader ''Content-Type'' ''text/plain; charset=utf-8'' new_response))))),
                 [call0])))"
      by (simp only: streamOpenAICompletion_def Some option.case False if_False Let_def call0_def)
    have chat: "api_chat P ev fetch req =
      (case streamOpenAICompletion P ev fetch p (temperature req) new_response of
         (None, res, calls) \<Rightarrow> (res, calls)
       | (Some err, res, calls) \<Rightarrow> (chat_catch err res, calls))"
      using assms by (simp add: api_chat_def)
    have calls: "snd (api_chat P ev fetch req) = [call0]"
      by (simp add: chat unfold split: fetch_result.splits option.splits prod.splits)
    with assms have "call = call0" by simp
    with assms have "fetch call0 = FetchResolves resp" by simp
    with assms show ?thesis by (simp add: chat unfold)
  qed
qed

lemma coalesce_default: "\<exists>c. coalesce x (Some (JStr [])) = Some c"
  by (cases x rule: nullish.cases) (simp_all add: coalesce_def)

lemma chatgpt_sync_response:
  assumes "model req = Some (JStr (lit ''chatgpt''))" and "prompt req = Some p"
    and "truthy (Some p)"
    and "snd (api_chat_sync P ev fetch req) = [call]"
    and "fetch call = FetchResolves resp" and "ok resp" and "body_json resp = Inr j"
    and "j \<noteq> JNull"
  shows "response_text (wire (fst (api_chat_sync P ev fetch req))) =
           coalesce (message_content j) (Some (JStr []))"
proof (cases "OPENAI_API_KEY ev")
  case None
  with assms show ?thesis by (simp add: api_chat_sync_def callOpenAICompletionFull_def)
next
  case (Some key)
  show ?thesis
  proof (cases "key = []")
    case True
    with Some assms show ?thesis by (simp add: api_chat_sync_def callOpenAICompletionFull_def)
  next
    case False
    define call0 where "call0 =
      \<lparr>url = openai_url, http_method = ''POST'', req_headers = openai_headers key,
       req_body = JObj
         [(lit ''model'', JStr (or_default (OPENAI_MODEL ev) (lit ''gpt-4o-mini''))),
          (lit ''messages'', user_messages p),
          (lit ''max_tokens'', JNum 800),
          (lit ''temperature'', JNum 0.2)]\<rparr>"
    have unfold: "callOpenAICompletionFull P ev fetch p =
      (case fetch call0 of
         FetchRejects err \<Rightarrow> (Inl err, [call0])
       | FetchResolves resp \<Rightarrow>
           if \<not> ok resp then
             (Inl (Error (lit ''OpenAI error '' @ decimal (http_status resp) @ lit '': ''
                           @ text_or_no_body resp)), [call0])
           else
             (case body_json resp of
                Inl err \<Rightarrow> (Inl err, [call0])
              | Inr j \<Rightarrow>
                  if j = JNull then (Inl (Thrown (null_read_error P ''choices'')), [call0])
                  else
                    (case coalesce
                       (opt_member ''content'' (opt_member ''message''
                          (opt_index0 (member ''choices'' j))))
                       (Some (JStr [])) of
                       None \<Rightarrow> (Inr (JStr []), [call0])
                     | Some content \<Rightarrow> (Inr content, [call0]))))"
      by (simp only: callOpenAICompletionFull_def Some option.case False if_False Let_def call0_def)
    have sync: "api_chat_sync P ev fetch req =
      (case callOpenAICompletionFull P ev fetch p of
         (Inl err, calls) \<Rightarrow>
           (res_json (json_error (String_err err)) (res_status 500 new_response), calls)
       | (Inr tx, calls) \<Rightarrow> (res_json (json_text tx) new_response, calls))"
      using assms by (simp add: api_chat_sync_def)
    have calls: "snd (api_chat_sync P ev fetch req) = [call0]"
      by (simp add: sync unfold split: fetch_result.splits option.splits prod.splits sum.splits)
    with assms have "call = call0" by simp
    with assms have f: "fetch call0 = FetchResolves resp" by simp
    obtain c where c: "coalesce (message_content j) (Some (JStr [])) = Some c"
      using coalesce_default by blast
    then have "callOpenAICompletionFull P ev fetch p = (Inr c, [call0])"
      using assms f by (simp add: unfold message_content_def)
    then show ?thesis
      by (simp add: sync c response_text_def res_defs json_text_def)
  qed
qed

text \<open>
  C1, as amended. For a request with a truthy model and prompt. With a model that
  is neither \<open>chatgpt\<close> nor \<open>googleai\<close> and a string as prompt, the two endpoints give
  different labels followed by the same reversed and cut prompt, so the streamed
  text is never the text of \<open>POST /api/chat-sync\<close>. With \<open>googleai\<close> and no temperature
  in the request, when \<open>POST /api/chat-sync\<close> answers a string as text,
  \<open>POST /api/chat\<close> streams that string. With \<open>chatgpt\<close>, when the provider answers the
  streaming call with a body and the other call with a JSON value, the streamed
  text is the concatenation of the fragments of the body, the text of
  \<open>POST /api/chat-sync\<close> is the full-message field of the value (the empty string
  when there is none), and the two are equal exactly when that field is the
  concatenation of the fragments.
\<close>

theorem stream_and_sync_text:
  assumes "model req = Some m" and "truthy (Some m)"
    and "prompt req = Some p" and "truthy (Some p)"
  shows "(m \<noteq> JStr (lit ''chatgpt'') \<and> m \<noteq> JStr (lit ''googleai'')
            \<and> template_string P m = Inr label \<and> p = JStr ps \<longrightarrow>
            streamed_text (wire (fst (api_chat P ev fetch req))) =
              lit ''Simulated reply for model '' @ [0x22] @ label @ [0x22] @ lit '':'' @ [LF, LF]
                @ take 800 (rev ps)
          \<and> response_text (wire (fst (api_chat_sync P ev fetch req))) =
              Some (JStr (lit ''Simulated full response for '' @ label @ lit '': ''
                @ take 800 (rev ps)))
          \<and> Some (JStr (streamed_text (wire (fst (api_chat P ev fetch req)))))
              \<noteq> response_text (wire (fst (api_chat_sync P ev fetch req))))
       \<and> (m = JStr (lit ''googleai'') \<and> temperature req = None
            \<and> response_text (wire (fst (api_chat_sync P ev fetch req))) = Some (JStr s) \<longrightarrow>
            streamed_text (wire (fst (api_chat P ev fetch req))) = s
          \<and> status (fst (api_chat P ev fetch req)) = 200)
       \<and> (m = JStr (lit ''chatgpt'')
            \<and> snd (api_chat P ev fetch req) = [scall]
            \<and> fetch scall = FetchResolves sresp \<and> ok sresp \<and> body_stream sresp = Some (reads, e)
            \<and> snd (api_chat_sync P ev fetch req) = [fcall]
            \<and> fetch fcall = FetchResolves fresp \<and> ok fresp \<and> body_json fresp = Inr j
            \<and> j \<noteq> JNull \<longrightarrow>
            streamed_text (wire (fst (api_chat P ev fetch req))) =
              concat (fst (spec_stream_fragments P (concat reads)))
          \<and> response_text (wire (fst (api_chat_sync P ev fetch req))) =
              coalesce (message_content j) (Some (JStr []))
          \<and> (Some (JStr (streamed_text (wire (fst (api_chat P ev fetch req)))))
                = response_text (wire (fst (api_chat_sync P ev fetch req)))
              \<longleftrightarrow> coalesce (message_content j) (Some (JStr []))
                = Some (JStr (concat (fst (spec_stream_fragments P (concat reads)))))))"
proof -
  have a: "streamed_text (wire (fst (api_chat P ev fetch req))) =
              lit ''Simulated reply for model '' @ [0x22] @ label @ [0x22] @ lit '':'' @ [LF, LF]
                @ take 800 (rev ps)
          \<and> response_text (wire (fst (api_chat_sync P ev fetch req))) =
              Some (JStr (lit ''Simulated full response for '' @ label @ lit '': ''
                @ take 800 (rev ps)))
          \<and> Some (JStr (streamed_text (wire (fst (api_chat P ev fetch req)))))
              \<noteq> response_text (wire (fst (api_chat_sync P ev fetch req)))"
    if "m \<noteq> JStr (lit ''chatgpt'')" "m \<noteq> JStr (lit ''googleai'')"
      "template_string P m = Inr label" "p = JStr ps"
  proof -
    have 1: "streamed_text (wire (fst (api_chat P ev fetch req))) =
              lit ''Simulated reply for model '' @ [0x22] @ label @ [0x22] @ lit '':'' @ [LF, LF]
                @ take 800 (rev ps)"
      using assms that by (simp add: api_chat_def res_defs reversed_prompt_def)
    have 2: "response_text (wire (fst (api_chat_sync P ev fetch req))) =
              Some (JStr (lit ''Simulated full response for '' @ label @ lit '': ''
                @ take 800 (rev ps)))"
      using assms that
      by (simp add: api_chat_sync_def res_defs reversed_prompt_def response_text_def json_text_def)
    have 3: "lit ''Simulated reply for model '' @ x \<noteq> lit ''Simulated full response for '' @ y" for x y
      by (simp add: lit_def)
    from 1 2 3 show ?thesis by simp
  qed
  have b: "streamed_text (wire (fst (api_chat P ev fetch req))) = s
          \<and> status (fst (api_chat P ev fetch req)) = 200"
    if "m = JStr (lit ''googleai'')" "temperature req = None"
      "response_text (wire (fst (api_chat_sync P ev fetch req))) = Some (JStr s)"
  proof -
    from google_sync_text [of req p P ev fetch s] assms that
    obtain calls where "callGoogleGenerate P ev fetch p None = (Inr (JStr s), calls)" by auto
    with assms that show ?thesis
      by (simp add: api_chat_def res_defs)
  qed
  have c: "streamed_text (wire (fst (api_chat P ev fetch req))) =
              concat (fst (spec_stream_fragments P (concat reads)))
          \<and> response_text (wire (fst (api_chat_sync P ev fetch req))) =
              coalesce (message_content j) (Some (JStr []))
          \<and> (Some (JStr (streamed_text (wire (fst (api_chat P ev fetch req)))))
                = response_text (wire (fst (api_chat_sync P ev fetch req)))
              \<longleftrightarrow> coalesce (message_content j) (Some (JStr []))
                = Some (JStr (concat (fst (spec_stream_fragments P (concat reads))))))"
    if "m = JStr (lit ''chatgpt'')" "snd (api_chat P ev fetch req) = [scall]"
      "fetch scall = FetchResolves sresp" "ok sresp" "body_stream sresp = Some (reads, e)"
      "snd (api_chat_sync P ev fetch req) = [fcall]"
      "fetch fcall = FetchResolves fresp" "ok fresp" "body_json fresp = Inr j" "j \<noteq> JNull"
  proof -
    have "fst (api_chat P ev fetch req) =
           snd (snd (relay P reads e
             (res_setHeader ''Connection'' ''keep-alive''
                (res_setHeader ''Cache-Control'' ''no-cache''
                   (res_setHeader ''Content-Type'' ''text/plain; charset=utf-8'' new_response)))))"
      using chatgpt_stream_response [of req p P ev fetch scall sresp reads e] assms that by simp
    then have 1: "streamed_text (wire (fst (api_chat P ev fetch req))) =
              concat (fst (spec_stream_fragments P (concat reads)))"
      by (simp add: relay_wire res_setHeader_def new_response_def streamed_text_fragments)
    have 2: "response_text (wire (fst (api_chat_sync P ev fetch req))) =
              coalesce (message_content j) (Some (JStr []))"
      using chatgpt_sync_response [of req p P ev fetch fcall fresp j] assms that by simp
    from 1 2 show ?thesis by auto
  qed
  have A: "m \<noteq> JStr (lit ''chatgpt'') \<and> m \<noteq> JStr (lit ''googleai'')
            \<and> template_string P m = Inr label \<and> p = JStr ps \<longrightarrow>
            streamed_text (wire (fst (api_chat P ev fetch req))) =
              lit ''Simulated reply for model '' @ [0x22] @ label @ [0x22] @ lit '':'' @ [LF, LF]
                @ take 800 (rev ps)
          \<and> response_text (wire (fst (api_chat_sync P ev fetch req))) =
              Some (JStr (lit ''Simulated full response for '' @ label @ lit '': ''
                @ take 800 (rev ps)))
          \<and> Some (JStr (streamed_text (wire (fst (api_chat P ev fetch req)))))
              \<noteq> response_text (wire (fst (api_chat_sync P ev fetch req)))"
    by (intro impI, elim conjE) (rule a)
  have B: "m = JStr (lit ''googleai'') \<and> temperature req = None
            \<and> response_text (wire (fst (api_chat_sync P ev fetch req))) = Some (JStr s) \<longrightarrow>
            streamed_text (wire (fst (api_chat P ev fetch req))) = s
          \<and> status (fst (api_chat P ev fetch req)) = 200"
    by (intro impI, elim conjE) (rule b)
  have C: "m = JStr (lit ''chatgpt'')
            \<and> snd (api_chat P ev fetch req) = [scall]
            \<and> fetch scall = FetchResolves sresp \<and> ok sresp \<and> body_stream sresp = Some (reads, e)
            \<and> snd (api_chat_sync P ev fetch req) = [fcall]
            \<and> fetch fcall = FetchResolves fresp \<and> ok fresp \<and> body_json fresp = Inr j
            \<and> j \<noteq> JNull \<longrightarrow>
            streamed_text (wire (fst (api_chat P ev fetch req))) =
              concat (fst (spec_stream_fragments P (concat reads)))
          \<and> response_text (wire (fst (api_chat_sync P ev fetch req))) =
              coalesce (message_content j) (Some (JStr []))
          \<and> (Some (JStr (streamed_text (wire (fst (api_chat P ev fetch req)))))
                = response_text (wire (fst (api_chat_sync P ev fetch req)))
              \<longleftrightarrow> coalesce (message_content j) (Some (JStr []))
                = Some (JStr (concat (fst (spec_stream_fragments P (concat reads))))))"
    by (intro impI, elim conjE) (rule c)
  show ?thesis by (intro conjI) (rule A, rule B, rule C)
qed

theorem stream_and_sync_text_witness:
  "streamed_text (wire (fst (api_chat sample_platform sample_env sample_fetch
       \<lparr>model = Some (JStr (lit ''chatgpt'')), prompt = Some (JStr (lit ''Hi'')), temperature = None\<rparr>)))
     = concat (fst (spec_stream_fragments sample_platform (concat sample_reads)))
   \<and> concat (fst (spec_stream_fragments sample_platform (concat sample_reads))) = lit ''Hello''
   \<and> response_text (wire (fst (api_chat_sync sample_platform sample_env sample_fetch
       \<lparr>model = Some (JStr (lit ''chatgpt'')), prompt = Some (JStr (lit ''Hi'')), temperature = None\<rparr>)))
     = Some (JStr (lit ''Hello''))
   \<and> Some (JStr (streamed_text (wire (fst (api_chat sample_platform sample_env sample_fetch
       \<lparr>model = Some (JStr (lit ''chatgpt'')), prompt = Some (JStr (lit ''Hi'')), temperature = None\<rparr>)))))
     = response_text (wire (fst (api_chat_sync sample_platform sample_env sample_fetch
       \<lparr>model = Some (JStr (lit ''chatgpt'')), prompt = Some (JStr (lit ''Hi'')), temperature = None\<rparr>)))
   \<and> response_text (wire (fst (api_chat_sync sample_platform sample_env sample_fetch
       \<lparr>model = Some (JStr (lit ''googleai'')), prompt = Some (JStr (lit ''Hi'')), temperature = None\<rparr>)))
     = Some (JStr (lit ''Hello''))
   \<and> streamed_text (wire (fst (api_chat sample_platform sample_env sample_fetch
       \<lparr>model = Some (JStr (lit ''googleai'')), prompt = Some (JStr (lit ''Hi'')), temperature = None\<rparr>)))
     = lit ''Hello''
   \<and> Some (JStr (streamed_text (wire (fst (api_chat sample_platform sample_env sample_fetch
       \<lparr>model = Some (JStr (lit ''grok'')), prompt = Some (JStr (lit ''abc'')), temperature = None\<rparr>)))))
     \<noteq> response_text (wire (fst (api_chat_sync sample_platform sample_env sample_fetch
       \<lparr>model = Some (JStr (lit ''grok'')), prompt = Some (JStr (lit ''abc'')), temperature = None\<rparr>)))"
proof -
  let ?gpt = "\<lparr>model = Some (JStr (lit ''chatgpt'')), prompt = Some (JStr (lit ''Hi'')), temperature = None\<rparr>"
  let ?goo = "\<lparr>model = Some (JStr (lit ''googleai'')), prompt = Some (JStr (lit ''Hi'')), temperature = None\<rparr>"
  let ?grok = "\<lparr>model = Some (JStr (lit ''grok'')), prompt = Some (JStr (lit ''abc'')), temperature = None\<rparr>"
  let ?scall = "\<lparr>url = openai_url, http_method = ''POST'',
       req_headers = openai_headers (lit ''sk-sample''),
       req_body = JObj
         [(lit ''model'', JStr (lit ''gpt-4o-mini'')),
          (lit ''messages'', user_messages (JStr (lit ''Hi''))),
          (lit ''temperature'', temperature_or_default None),
          (lit ''stream'', JBool True),
          (lit ''max_tokens'', JNum 800)]\<rparr>"
  let ?sresp = "\<lparr>ok = True, http_status = 200, body_text = None,
       body_json = Inl (Thrown (lit ''SyntaxError: Unexpected token d'')),
       body_stream = Some (sample_reads, Done)\<rparr>"
  let ?fcall = "\<lparr>url = openai_url, http_method = ''POST'',
       req_headers = openai_headers (lit ''sk-sample''),
       req_body = JObj
         [(lit ''model'', JStr (lit ''gpt-4o-mini'')),
          (lit ''messages'', user_messages (JStr (lit ''Hi''))),
          (lit ''max_tokens'', JNum 800),
          (lit ''temperature'', JNum 0.2)]\<rparr>"
  let ?fresp = "\<lparr>ok = True, http_status = 200, body_text = None,
       body_json = Inr (message_value (lit ''Hello'')),
       body_stream = Some ([], Done)\<rparr>"
  have f: "sample_fetch ?scall = FetchResolves ?sresp"
    by (simp add: sample_fetch_def)
  have g: "sample_fetch ?fcall = FetchResolves ?fresp"
    by (simp add: sample_fetch_def)
  have g': "sample_fetch c = FetchResolves ?fresp"
    if "url c = openai_url" "member ''stream'' (req_body c) = None" for c
    using that by (simp add: sample_fetch_def)
  have calls: "snd (api_chat sample_platform sample_env sample_fetch ?gpt) = [?scall]"
    by (simp add: api_chat_def streamOpenAICompletion_def sample_env_def Let_def or_default_def f)
  have fcalls: "snd (api_chat_sync sample_platform sample_env sample_fetch ?gpt) = [?fcall]"
    by (simp add: api_chat_sync_def callOpenAICompletionFull_def sample_env_def Let_def
        or_default_def g' message_value_def coalesce_def opt_member_def opt_index0_def)
  have mv: "message_value (lit ''Hello'') \<noteq> JNull"
    "coalesce (message_content (message_value (lit ''Hello''))) (Some (JStr []))
       = Some (JStr (lit ''Hello''))"
    by (simp_all add: message_value_def message_content_def coalesce_def opt_member_def
        opt_index0_def)
  have frag: "concat (fst (spec_stream_fragments sample_platform (concat sample_reads))) = lit ''Hello''"
    by (simp add: spec_stream_fragments_def spec_payload_fragment_def sample_reads_def
        str_defs utf8_defs relay_defs line_defs sample_platform_def)
  have sync_goo: "response_text (wire (fst (api_chat_sync sample_platform sample_env sample_fetch ?goo)))
     = Some (JStr (lit ''Hello''))"
    by (simp add: api_chat_sync_def callGoogleGenerate_def sample_defs Let_def
        openai_url_def coalesce_def opt_member_def opt_index0_def or_default_def lit_append
        response_text_def res_defs json_text_def)
  note gpt = stream_and_sync_text [where req = ?gpt and m = "JStr (lit ''chatgpt'')"
      and p = "JStr (lit ''Hi'')"
      and P = sample_platform and ev = sample_env and fetch = sample_fetch
      and scall = ?scall and sresp = ?sresp and reads = sample_reads and e = Done
      and fcall = ?fcall and fresp = ?fresp and j = "message_value (lit ''Hello'')"]
  note goo = stream_and_sync_text [where req = ?goo and m = "JStr (lit ''googleai'')"
      and p = "JStr (lit ''Hi'')"
      and P = sample_platform and ev = sample_env and fetch = sample_fetch
      and s = "lit ''Hello''"]
  note grok = stream_and_sync_text [where req = ?grok and m = "JStr (lit ''grok'')"
      and p = "JStr (lit ''abc'')" and label = "lit ''grok''" and ps = "lit ''abc''"
      and P = sample_platform and ev = sample_env and fetch = sample_fetch]
  from gpt calls fcalls f g mv
  have 1: "streamed_text (wire (fst (api_chat sample_platform sample_env sample_fetch ?gpt)))
     = concat (fst (spec_stream_fragments sample_platform (concat sample_reads)))
   \<and> response_text (wire (fst (api_chat_sync sample_platform sample_env sample_fetch ?gpt)))
     = Some (JStr (lit ''Hello''))"
    by simp
  from goo sync_goo have 2: "streamed_text (wire (fst (api_chat sample_platform sample_env sample_fetch ?goo)))
     = lit ''Hello''"
    by simp
  from grok have 3: "Some (JStr (streamed_text (wire (fst (api_chat sample_platform sample_env sample_fetch ?grok)))))
     \<noteq> response_text (wire (fst (api_chat_sync sample_platform sample_env sample_fetch ?grok)))"
    by (simp add: template_string_def lit_def)
  from 1 2 3 frag sync_goo show ?thesis by simp
qed

text \<open>
  C1 as stated fails: for the model \<open>grok\<close> and the prompt \<open>abc\<close> the streamed text
  and the text of \<open>POST /api/chat-sync\<close> differ.
\<close>

theorem stream_equals_sync_counterexample:
  "streamed_text (wire (fst (api_chat sample_platform sample_env sample_fetch
       \<lparr>model = Some (JStr (lit ''grok'')), prompt = Some (JStr (lit ''abc'')), temperature = None\<rparr>)))
     = lit ''Simulated reply for model '' @ [0x22] @ lit ''grok'' @ [0x22] @ lit '':'' @ [LF, LF] @ lit ''cba''
   \<and> response_text (wire (fst (api_chat_sync sample_platform sample_env sample_fetch
       \<lparr>model = Some (JStr (lit ''grok'')), prompt = Some (JStr (lit ''abc'')), temperature = None\<rparr>)))
     = Some (JStr (lit ''Simulated full response for grok: cba''))
   \<and> Some (JStr (streamed_text (wire (fst (api_chat sample_platform sample_env sample_fetch
       \<lparr>model = Some (JStr (lit ''grok'')), prompt = Some (JStr (lit ''abc'')), temperature = None\<rparr>)))))
     \<noteq> response_text (wire (fst (api_chat_sync sample_platform sample_env sample_fetch
       \<lparr>model = Some (JStr (lit ''grok'')), prompt = Some (JStr (lit ''abc'')), temperature = None\<rparr>)))"
  by (simp add: api_chat_def api_chat_sync_def template_string_def res_defs reversed_prompt_def
      response_text_def json_text_def lit_def)

end
